theory Spec2Isabelle
  imports Complex_Main "HOL-Library.Word"
begin

section \<open>Linear algebra as the code uses it\<close>

text \<open>
  The fixed-size vectors of iDynTree (\<open>Vector3\<close>, \<open>Vector4\<close>, \<open>VectorFixSize<5>\<close>) and the
  dense Eigen vectors are read with \<open>v(i)\<close>; a vector is modelled by its component
  function. The floating-point numbers of the code are modelled by the reals.
\<close>

type_synonym Vector = "nat \<Rightarrow> real"

text \<open>
  \<open>Eigen::SparseMatrix<double>\<close>: the dimensions given to \<open>resize\<close> and the entries
  written by \<open>insert(i, j) = v\<close>, in the order of insertion. A coefficient that was never
  inserted is zero.
\<close>

record SparseMatrix =
  rows :: nat
  cols :: nat
  entries :: "((nat \<times> nat) \<times> real) list"

definition resize :: "nat \<Rightarrow> nat \<Rightarrow> SparseMatrix" where
  "resize r c = \<lparr>rows = r, cols = c, entries = []\<rparr>"

definition insert_coeff :: "nat \<Rightarrow> nat \<Rightarrow> real \<Rightarrow> SparseMatrix \<Rightarrow> SparseMatrix" where
  "insert_coeff i j v M = M\<lparr>entries := entries M @ [((i, j), v)]\<rparr>"

definition coeff :: "SparseMatrix \<Rightarrow> nat \<Rightarrow> nat \<Rightarrow> real" where
  "coeff M i j = (case map_of (entries M) (i, j) of None \<Rightarrow> 0 | Some v \<Rightarrow> v)"

definition row_times :: "SparseMatrix \<Rightarrow> Vector \<Rightarrow> nat \<Rightarrow> real" where
  "row_times M x i = sum_list (map (\<lambda>j. coeff M i j * x j) [0..<cols M])"

definition quadratic_form :: "SparseMatrix \<Rightarrow> Vector \<Rightarrow> real" where
  "quadratic_form M x = sum_list (map (\<lambda>i. x i * row_times M x i) [0..<rows M])"

section \<open>QPSolver (QPSolver.cpp)\<close>

text \<open>
  The part of \<open>OsqpEigen::Solver\<close> that the wrapper reads and writes: whether
  \<open>initSolver\<close> has run, and the problem data installed through \<open>data()\<close> or through
  the update calls.
\<close>

record OsqpSolver =
  isInitialized :: bool
  numberOfVariables :: int
  numberOfConstraints :: int
  hessianMatrix :: "SparseMatrix option"
  gradient :: "real list option"
  linearConstraintsMatrix :: "SparseMatrix option"
  lowerBound :: "real list option"
  upperBound :: "real list option"

record QPSolver =
  m_inputSize :: int
  m_hessian :: SparseMatrix
  m_gradient :: "real list"
  m_constraintsMAtrix :: SparseMatrix
  m_lowerBound :: "real list"
  m_upperBound :: "real list"
  m_QPSolver :: OsqpSolver

text \<open>
  The calls into OsqpEigen report success or failure. Their implementation is not part of
  the repository: the answer of each call is a parameter \<open>ok\<close> of the function that makes
  it, and a call that succeeds stores its argument.
\<close>

definition data_setHessianMatrix :: "bool \<Rightarrow> SparseMatrix \<Rightarrow> OsqpSolver \<Rightarrow> OsqpSolver" where
  "data_setHessianMatrix ok H q = (if ok then q\<lparr>hessianMatrix := Some H\<rparr> else q)"

definition store_gradient :: "bool \<Rightarrow> real list \<Rightarrow> OsqpSolver \<Rightarrow> OsqpSolver" where
  "store_gradient ok g q = (if ok then q\<lparr>gradient := Some g\<rparr> else q)"

definition store_linearConstraintsMatrix :: "bool \<Rightarrow> SparseMatrix \<Rightarrow> OsqpSolver \<Rightarrow> OsqpSolver" where
  "store_linearConstraintsMatrix ok A q = (if ok then q\<lparr>linearConstraintsMatrix := Some A\<rparr> else q)"

definition store_lowerBound :: "bool \<Rightarrow> real list \<Rightarrow> OsqpSolver \<Rightarrow> OsqpSolver" where
  "store_lowerBound ok l q = (if ok then q\<lparr>lowerBound := Some l\<rparr> else q)"

definition store_upperBound :: "bool \<Rightarrow> real list \<Rightarrow> OsqpSolver \<Rightarrow> OsqpSolver" where
  "store_upperBound ok u q = (if ok then q\<lparr>upperBound := Some u\<rparr> else q)"

text \<open>The constructor: number of variables and of constraints, nothing else set.\<close>

definition QPSolver_new :: "int \<Rightarrow> int \<Rightarrow> QPSolver" where
  "QPSolver_new inputSize numberOfAllConstraints =
     \<lparr>m_inputSize = inputSize,
      m_hessian = resize 0 0,
      m_gradient = [],
      m_constraintsMAtrix = resize 0 0,
      m_lowerBound = [],
      m_upperBound = [],
      m_QPSolver = \<lparr>isInitialized = False,
                    numberOfVariables = inputSize,
                    numberOfConstraints = numberOfAllConstraints,
                    hessianMatrix = None, gradient = None,
                    linearConstraintsMatrix = None,
                    lowerBound = None, upperBound = None\<rparr>\<rparr>"

text \<open>
  \<open>QPSolver::setHessianMatrix\<close>. The local matrix is built and copied into \<open>m_hessian\<close>
  before the test of \<open>isInitialized\<close>; on an initialized solver the function warns, and
  its \<open>return false\<close> is commented out.
\<close>

definition Hessian_of :: "Vector \<Rightarrow> SparseMatrix" where
  "Hessian_of alphaVector =
     (insert_coeff 2 2 (alphaVector 0 + alphaVector 1)
     (insert_coeff 2 0 (alphaVector 0)
     (insert_coeff 1 1 (alphaVector 2)
     (insert_coeff 0 2 (alphaVector 0)
     (insert_coeff 0 0 (alphaVector 0 + alphaVector 3)
     (resize 3 3))))))"

definition setHessianMatrix :: "bool \<Rightarrow> Vector \<Rightarrow> QPSolver \<Rightarrow> bool \<times> QPSolver" where
  "setHessianMatrix ok alphaVector s =
     (let Hessian = Hessian_of alphaVector;
          s1 = s\<lparr>m_hessian := Hessian\<rparr>
      in if isInitialized (m_QPSolver s1) then (True, s1)
         else if \<not> ok then (False, s1)
         else (True, s1\<lparr>m_QPSolver := data_setHessianMatrix ok Hessian (m_QPSolver s1)\<rparr>))"

text \<open>\<open>QPSolver::setGradientVector\<close>.\<close>

definition setGradientVector :: "bool \<Rightarrow> Vector \<Rightarrow> Vector \<Rightarrow> QPSolver \<Rightarrow> bool \<times> QPSolver" where
  "setGradientVector ok alphaVector nominalValuesVector s =
     (let g = [- alphaVector 0 * nominalValuesVector 3 - nominalValuesVector 0 * alphaVector 3,
               - alphaVector 2 * nominalValuesVector 1,
               - nominalValuesVector 2 * alphaVector 1 - nominalValuesVector 3 * alphaVector 0];
          s1 = s\<lparr>m_gradient := g\<rparr>
      in if \<not> ok then (False, s1)
         else (True, s1\<lparr>m_QPSolver := store_gradient ok g (m_QPSolver s1)\<rparr>))"

text \<open>
  \<open>QPSolver::evaluateConstraintsMatrix\<close>: five rows over the variables
  \<open>(z, sigma, delta)\<close>; \<open>currentValuesVector\<close> holds the measured ZMP, the measured DCM and
  the offset term.
\<close>

definition evaluateConstraintsMatrix :: "Vector \<Rightarrow> SparseMatrix" where
  "evaluateConstraintsMatrix currentValuesVector =
     (insert_coeff 4 1 (- 1)
     (insert_coeff 3 1 1
     (insert_coeff 2 0 (- 1)
     (insert_coeff 1 0 1
     (insert_coeff 0 2 1
     (insert_coeff 0 1 ((currentValuesVector 0 + currentValuesVector 2)
                         - currentValuesVector 1 - (currentValuesVector 2) / 2)
     (insert_coeff 0 0 1
     (resize 5 3))))))))"

definition setConstraintsMatrix :: "bool \<Rightarrow> Vector \<Rightarrow> QPSolver \<Rightarrow> bool \<times> QPSolver" where
  "setConstraintsMatrix ok currentValuesVector s =
     (let s1 = s\<lparr>m_constraintsMAtrix := evaluateConstraintsMatrix currentValuesVector\<rparr>
      in if \<not> ok then (False, s1)
         else (True, s1\<lparr>m_QPSolver :=
                 store_linearConstraintsMatrix ok (m_constraintsMAtrix s1) (m_QPSolver s1)\<rparr>))"

text \<open>
  \<open>QPSolver::setBoundsVectorOfConstraints\<close>. \<open>INFTY\<close> stands for \<open>OsqpEigen::INFTY\<close>, a
  constant of the solver library. On an initialized solver one call \<open>updateBounds\<close>
  installs both vectors (answer \<open>okLower\<close>); otherwise \<open>setLowerBound\<close> and
  \<open>setUpperBound\<close> are called in turn.
\<close>

definition setBoundsVectorOfConstraints ::
  "real \<Rightarrow> bool \<Rightarrow> bool \<Rightarrow> Vector \<Rightarrow> Vector \<Rightarrow> Vector \<Rightarrow> QPSolver \<Rightarrow> bool \<times> QPSolver" where
  "setBoundsVectorOfConstraints INFTY okLower okUpper
       nominalValuesVector currentValuesVector tolerenceOfBounds s =
     (let StepDuration = (ln (nominalValuesVector 1)) / nominalValuesVector 4;
          ub = [currentValuesVector 2 / 2 + currentValuesVector 0,
                nominalValuesVector 0 + tolerenceOfBounds 0,
                nominalValuesVector 0 - tolerenceOfBounds 1,
                exp ((StepDuration + tolerenceOfBounds 2) * nominalValuesVector 4),
                exp ((StepDuration - tolerenceOfBounds 2) * nominalValuesVector 4)];
          lb = [currentValuesVector 2 / 2 + currentValuesVector 0,
                - INFTY, - INFTY, - INFTY, - INFTY];
          s1 = s\<lparr>m_upperBound := ub, m_lowerBound := lb\<rparr>;
          q = m_QPSolver s1
      in if isInitialized q then
           (if \<not> okLower then (False, s1)
            else (True, s1\<lparr>m_QPSolver := store_upperBound True ub (store_lowerBound True lb q)\<rparr>))
         else
           (if \<not> okLower then (False, s1)
            else let q1 = store_lowerBound okLower lb q
                 in if \<not> okUpper then (False, s1\<lparr>m_QPSolver := q1\<rparr>)
                    else (True, s1\<lparr>m_QPSolver := store_upperBound okUpper ub q1\<rparr>)))"

text \<open>\<open>QPSolver::initialize\<close>: the answer of \<open>initSolver\<close>, which marks the solver initialized.\<close>

definition initialize :: "bool \<Rightarrow> QPSolver \<Rightarrow> bool \<times> QPSolver" where
  "initialize ok s =
     (if ok then (True, s\<lparr>m_QPSolver := (m_QPSolver s)\<lparr>isInitialized := True\<rparr>\<rparr>) else (False, s))"

text \<open>
  The feasible set of the problem the solver is given: a point \<open>x\<close> is admitted by the
  constraint matrix \<open>A\<close> with bounds \<open>l\<close> and \<open>u\<close> when \<open>l \<le> A x \<le> u\<close> holds in every row.
\<close>

definition admits :: "SparseMatrix \<Rightarrow> real list \<Rightarrow> real list \<Rightarrow> Vector \<Rightarrow> bool" where
  "admits A l u x =
     list_all (\<lambda>i. l ! i \<le> row_times A x i \<and> row_times A x i \<le> u ! i) [0..<rows A]"

text \<open>The decision variables by position.\<close>

definition solution :: "real \<Rightarrow> real \<Rightarrow> real \<Rightarrow> Vector" where
  "solution z sigma delta = (\<lambda>i. [z, sigma, delta] ! i)"

section \<open>StepAdaptator: timings and their decoding\<close>

text \<open>
  The fields of \<open>StepAdaptator\<close> written by \<open>setTimings\<close> and read by
  \<open>getDesiredImpactTime\<close>.
\<close>

record StepAdaptator =
  m_nextDoubleSupportDuration :: real
  m_currentTime :: real
  m_stepTiming :: real
  m_remainingSingleSupportDuration :: real
  m_sigmaNominal :: real
  m_omega :: real

definition setTimings :: "real \<Rightarrow> real \<Rightarrow> real \<Rightarrow> real \<Rightarrow> StepAdaptator \<Rightarrow> StepAdaptator" where
  "setTimings omega currentTime nextImpactTime nextDoubleSupportDuration a =
     (let a1 = a\<lparr>m_nextDoubleSupportDuration := nextDoubleSupportDuration,
                  m_currentTime := currentTime\<rparr>;
          a2 = a1\<lparr>m_stepTiming := nextImpactTime + nextDoubleSupportDuration / 2 - currentTime,
                   m_remainingSingleSupportDuration := nextImpactTime - currentTime\<rparr>
      in a2\<lparr>m_sigmaNominal := exp (omega * m_stepTiming a2), m_omega := omega\<rparr>)"

text \<open>
  \<open>getDesiredImpactTime\<close> reads component 2 of the solver's solution, which this version
  of the adaptator uses for sigma; the solution vector is the argument \<open>sol\<close>.
\<close>

definition getDesiredImpactTime :: "Vector \<Rightarrow> StepAdaptator \<Rightarrow> real" where
  "getDesiredImpactTime sol a =
     (let optimalStepDuration = ln (sol 2) / m_omega a
      in m_currentTime a + optimalStepDuration - m_nextDoubleSupportDuration a / 2)"

section \<open>WalkingModule: data\<close>

type_synonym size_t = "64 word"

datatype WalkingFSM = Configured | Preparing | Prepared | Walking | Paused | Stopped

text \<open>
  What the code can do beyond returning: \<open>front\<close>, \<open>back\<close>, \<open>pop_front\<close> and \<open>[]\<close> on a
  deque or vector are undefined outside its range, and \<open>at\<close> throws \<open>std::out_of_range\<close>.
\<close>

datatype fault = UndefinedBehaviour | OutOfRange

text \<open>
  The calls to the robot, the planner and the step adaptator that the claims speak of
  are recorded, in order, in the field \<open>events\<close>.
\<close>

datatype swing_branch = RightSwing | LeftSwing

datatype event =
    SetDirectPositionReferences
  | RunStepAdaptator swing_branch
  | AskNewTrajectories
  | ResetModule

text \<open>
  The state of \<open>WalkingModule\<close>. The samples of the feet trajectories (\<open>iDynTree::Transform\<close>
  and \<open>iDynTree::Twist\<close>) are the type parameters \<open>'tf\<close> and \<open>'tw\<close>.
\<close>

record ('tf, 'tw) WalkingModule =
  m_robotState :: WalkingFSM
  m_leftTrajectory :: "'tf list"
  m_rightTrajectory :: "'tf list"
  m_leftTwistTrajectory :: "'tw list"
  m_rightTwistTrajectory :: "'tw list"
  m_leftInContact :: "bool list"
  m_rightInContact :: "bool list"
  m_isLeftFixedFrame :: "bool list"
  m_DCMPositionDesired :: "(real \<times> real) list"
  m_DCMVelocityDesired :: "(real \<times> real) list"
  m_comHeightTrajectory :: "real list"
  m_comHeightVelocity :: "real list"
  m_mergePoints :: "size_t list"
  m_newTrajectoryRequired :: bool
  m_newTrajectoryMergeCounter :: size_t
  m_desiredPosition :: "real \<times> real"
  m_time :: real
  m_dT :: real
  m_firstStep :: bool
  indexmilad :: int
  m_useMPC :: bool
  m_useStepAdaptation :: bool
  m_useQPIK :: bool
  m_useOSQP :: bool
  m_dumpData :: bool
  events :: "event list"

text \<open>The trajectories the planner hands over in \<open>updateTrajectories\<close>.\<close>

record ('tf, 'tw) PlannedTrajectories =
  p_leftTrajectory :: "'tf list"
  p_rightTrajectory :: "'tf list"
  p_leftTwistTrajectory :: "'tw list"
  p_rightTwistTrajectory :: "'tw list"
  p_leftInContact :: "bool list"
  p_rightInContact :: "bool list"
  p_isLeftFixedFrame :: "bool list"
  p_DCMPositionDesired :: "(real \<times> real) list"
  p_DCMVelocityDesired :: "(real \<times> real) list"
  p_comHeightTrajectory :: "real list"
  p_comHeightVelocity :: "real list"
  p_mergePoints :: "size_t list"

text \<open>
  What the collaborators answer during one call of \<open>updateModule\<close>: the port, the robot
  helper, the planner, the forward kinematics, the controllers and the inverse kinematics.
  A field \<open>..._ok\<close> is the boolean a call returns.
\<close>

record ('tf, 'tw) TickEnv =
  checkMotionDone_ok :: bool
  motionDone :: bool
  switchToControlMode_ok :: bool
  setDirectPositionReferences_ok :: bool
  desiredUnicyclePosition :: "(real \<times> real) option"
  planner_updateTrajectories_ok :: bool
  isTrajectoryComputed :: bool
  planned :: "('tf, 'tw) PlannedTrajectories"
  usingGainScheduling :: bool
  updatePhases_ok :: bool
  getFeedbacks_ok :: bool
  evaluateWorldToBaseTransformation_ok :: bool
  fk_setInternalRobotState_ok :: bool
  evaluateCoM_ok :: bool
  evaluateDCM_ok :: bool
  evaluateZMP_ok :: bool
  integrateModel_ok :: bool
  getCoMPosition_ok :: bool
  getCoMVelocity_ok :: bool
  getNominalCoMHeight_ok :: bool
  getSwitchOverSwingRatio_ok :: bool
  jLeftstepList_size :: nat
  jRightstepList_size :: nat
  jRightFootPhases :: "int list"
  RunStepAdaptator_ok :: bool
  stepAdaptator_solve_ok :: bool
  stepAdaptator_getControllerOutput_ok :: bool
  setConvexHullConstraint_ok :: bool
  mpc_setFeedback_ok :: bool
  mpc_setReferenceSignal_ok :: bool
  mpc_solve_ok :: bool
  mpc_getControllerOutput_ok :: bool
  dcm_evaluateControl_ok :: bool
  dcm_getControllerOutput_ok :: bool
  zmp_evaluateControl_ok :: bool
  zmp_getControllerOutput_ok :: bool
  qpik_setInternalRobotState_ok :: bool
  qpik_setRobotState_ok :: bool
  qpik_solve_ok :: bool
  qpik_getSolution_ok :: bool
  usingAdditionalRotationTarget :: bool
  updateIntertiaToWorldFrameRotation_ok :: bool
  setFullModelFeedBack_ok :: bool
  computeIK_ok :: bool

section \<open>WalkingModule: control flow\<close>

text \<open>
  A function body is a sequence of steps. A step goes on (\<open>Running\<close>), leaves the function
  with a \<open>return\<close> (\<open>Returned\<close>, with the value returned and the state at that point), or
  faults.
\<close>

datatype 's flow = Running 's | Returned bool 's | Faulted fault

fun run_steps :: "('s \<Rightarrow> 's flow) list \<Rightarrow> 's \<Rightarrow> 's flow" where
  "run_steps [] s = Running s"
| "run_steps (f # fs) s =
     (case f s of Running s' \<Rightarrow> run_steps fs s'
      | Returned b s' \<Rightarrow> Returned b s'
      | Faulted e \<Rightarrow> Faulted e)"

text \<open>\<open>if(!call(...)) return false;\<close> for a call that answers \<open>ok\<close>.\<close>

definition call :: "bool \<Rightarrow> 's \<Rightarrow> 's flow" where
  "call ok s = (if ok then Running s else Returned False s)"

text \<open>The same for a function of the module, which returns a boolean and a state or faults.\<close>

definition must :: "fault + bool \<times> 's \<Rightarrow> 's flow" where
  "must r = (case r of Inl e \<Rightarrow> Faulted e
             | Inr (ok, s) \<Rightarrow> if ok then Running s else Returned False s)"

text \<open>A step that reads \<open>q.front()\<close>.\<close>

definition reads_front :: "'a list \<Rightarrow> 's \<Rightarrow> 's flow" where
  "reads_front q s = (if q = [] then Faulted UndefinedBehaviour else Running s)"

text \<open>A step that reads \<open>q[i]\<close>.\<close>

definition reads_index :: "'a list \<Rightarrow> size_t \<Rightarrow> 's \<Rightarrow> 's flow" where
  "reads_index q i s = (if unat i < length q then Running s else Faulted UndefinedBehaviour)"

text \<open>A step taken only when a condition holds at that point.\<close>

definition when_step :: "('s \<Rightarrow> bool) \<Rightarrow> ('s \<Rightarrow> 's flow) \<Rightarrow> 's \<Rightarrow> 's flow" where
  "when_step c f s = (if c s then f s else Running s)"

definition log_event :: "event \<Rightarrow> ('tf, 'tw) WalkingModule \<Rightarrow> ('tf, 'tw) WalkingModule flow" where
  "log_event e s = Running (s\<lparr>events := events s @ [e]\<rparr>)"

text \<open>A step that reads the front of one of the queues of the state.\<close>

definition front_of :: "('s \<Rightarrow> 'a list) \<Rightarrow> 's \<Rightarrow> 's flow" where
  "front_of sel s = (if sel s = [] then Faulted UndefinedBehaviour else Running s)"

section \<open>WalkingModule: the reference buffers\<close>

text \<open>
  \<open>q.pop_front(); q.push_back(q.back());\<close> on a deque of at least two elements. On an
  empty deque \<open>pop_front\<close> is undefined, and on a deque of one element \<open>back\<close> is called
  on the deque just emptied: \<open>advanceReferenceSignals\<close> below faults in both cases.
\<close>

definition pop_push :: "'a list \<Rightarrow> 'a list" where
  "pop_push q = tl q @ [last (tl q)]"

text \<open>
  The merge points are of type \<open>size_t\<close>: \<open>mergePoint--\<close> wraps around at zero.
\<close>

definition advance_mergePoints :: "size_t list \<Rightarrow> size_t list" where
  "advance_mergePoints mps =
     (if mps = [] then mps
      else let mps' = map (\<lambda>mergePoint. mergePoint - 1) mps
           in if hd mps' = 0 then tl mps' else mps')"

definition advanceReferenceSignals ::
  "('tf, 'tw) WalkingModule \<Rightarrow> fault + bool \<times> ('tf, 'tw) WalkingModule" where
  "advanceReferenceSignals s =
     (if m_leftTrajectory s = [] \<or> m_rightTrajectory s = []
         \<or> m_leftInContact s = [] \<or> m_rightInContact s = []
         \<or> m_DCMPositionDesired s = [] \<or> m_DCMVelocityDesired s = []
         \<or> m_comHeightTrajectory s = []
      then Inr (False, s)
      else if length (m_rightTrajectory s) < 2 \<or> length (m_leftTrajectory s) < 2
         \<or> length (m_rightTwistTrajectory s) < 2 \<or> length (m_leftTwistTrajectory s) < 2
         \<or> length (m_rightInContact s) < 2 \<or> length (m_leftInContact s) < 2
         \<or> length (m_isLeftFixedFrame s) < 2
         \<or> length (m_DCMPositionDesired s) < 2 \<or> length (m_DCMVelocityDesired s) < 2
         \<or> length (m_comHeightTrajectory s) < 2 \<or> length (m_comHeightVelocity s) < 2
      then Inl UndefinedBehaviour
      else Inr (True,
        s\<lparr>m_rightTrajectory := pop_push (m_rightTrajectory s),
          m_leftTrajectory := pop_push (m_leftTrajectory s),
          m_rightTwistTrajectory := pop_push (m_rightTwistTrajectory s),
          m_leftTwistTrajectory := pop_push (m_leftTwistTrajectory s),
          m_rightInContact := pop_push (m_rightInContact s),
          m_leftInContact := pop_push (m_leftInContact s),
          m_isLeftFixedFrame := pop_push (m_isLeftFixedFrame s),
          m_DCMPositionDesired := pop_push (m_DCMPositionDesired s),
          m_DCMVelocityDesired := pop_push (m_DCMVelocityDesired s),
          m_comHeightTrajectory := pop_push (m_comHeightTrajectory s),
          m_comHeightVelocity := pop_push (m_comHeightVelocity s),
          m_mergePoints := advance_mergePoints (m_mergePoints s)\<rparr>))"

text \<open>\<open>n\<close> calls of \<open>advanceReferenceSignals\<close> in a row, stopping at the first that fails.\<close>

fun advance_times :: "nat \<Rightarrow> ('tf, 'tw) WalkingModule \<Rightarrow> fault + bool \<times> ('tf, 'tw) WalkingModule" where
  "advance_times 0 s = Inr (True, s)"
| "advance_times (Suc n) s =
     (case advanceReferenceSignals s of
        Inl e \<Rightarrow> Inl e
      | Inr (ok, s') \<Rightarrow> if ok then advance_times n s' else Inr (False, s'))"

text \<open>The lengths of the eleven trajectory queues, in the order of the source.\<close>

definition queue_lengths :: "('tf, 'tw) WalkingModule \<Rightarrow> nat list" where
  "queue_lengths s =
     [length (m_rightTrajectory s), length (m_leftTrajectory s),
      length (m_rightTwistTrajectory s), length (m_leftTwistTrajectory s),
      length (m_rightInContact s), length (m_leftInContact s),
      length (m_isLeftFixedFrame s),
      length (m_DCMPositionDesired s), length (m_DCMVelocityDesired s),
      length (m_comHeightTrajectory s), length (m_comHeightVelocity s)]"

section \<open>WalkingModule: requests for a new trajectory\<close>

definition setPlannerInput ::
  "real \<Rightarrow> real \<Rightarrow> ('tf, 'tw) WalkingModule \<Rightarrow> fault + bool \<times> ('tf, 'tw) WalkingModule" where
  "setPlannerInput x y s =
     (let finish = (\<lambda>s'. Inr (True, s'\<lparr>m_desiredPosition := (x, y),
                                         m_newTrajectoryRequired := True\<rparr>))
      in if m_mergePoints s = [] then
           (case m_leftInContact s of
              [] \<Rightarrow> Inl UndefinedBehaviour
            | l # _ \<Rightarrow>
                if \<not> l then Inr (False, s)
                else (case m_rightInContact s of
                        [] \<Rightarrow> Inl UndefinedBehaviour
                      | r # _ \<Rightarrow>
                          if \<not> r then Inr (False, s)
                          else if m_newTrajectoryRequired s then Inr (True, s)
                          else finish (s\<lparr>m_newTrajectoryMergeCounter := 20\<rparr>)))
         else if hd (m_mergePoints s) > 20 then
           finish (s\<lparr>m_newTrajectoryMergeCounter := hd (m_mergePoints s)\<rparr>)
         else if length (m_mergePoints s) > 1 then
           (if m_newTrajectoryRequired s then Inr (True, s)
            else finish (s\<lparr>m_newTrajectoryMergeCounter := m_mergePoints s ! 1\<rparr>))
         else
           (if m_newTrajectoryRequired s then Inr (True, s)
            else finish (s\<lparr>m_newTrajectoryMergeCounter := 20\<rparr>)))"

definition askNewTrajectories ::
  "('tf, 'tw) TickEnv \<Rightarrow> size_t \<Rightarrow> ('tf, 'tw) WalkingModule
     \<Rightarrow> fault + bool \<times> ('tf, 'tw) WalkingModule" where
  "askNewTrajectories env mergePoint s =
     (if unat mergePoint \<ge> length (m_DCMPositionDesired s) then Inr (False, s)
      else if \<not> unat mergePoint < length (m_DCMVelocityDesired s) then Inl UndefinedBehaviour
      else Inr (planner_updateTrajectories_ok env, s\<lparr>events := events s @ [AskNewTrajectories]\<rparr>))"

text \<open>
  Modelled from the spec: \<open>StdHelper::appendVectorToDeque\<close> (Utils) is not among the
  sources; the segment is spliced into the queue at the index given.
\<close>

definition appendVectorToDeque :: "'a list \<Rightarrow> 'a list \<Rightarrow> nat \<Rightarrow> 'a list" where
  "appendVectorToDeque input output initPoint = take initPoint output @ input"

definition updateTrajectories ::
  "('tf, 'tw) TickEnv \<Rightarrow> size_t \<Rightarrow> ('tf, 'tw) WalkingModule
     \<Rightarrow> fault + bool \<times> ('tf, 'tw) WalkingModule" where
  "updateTrajectories env mergePoint s =
     (if \<not> isTrajectoryComputed env then Inr (False, s)
      else let p = planned env; n = unat mergePoint;
               s1 = s\<lparr>m_leftTrajectory := appendVectorToDeque (p_leftTrajectory p) (m_leftTrajectory s) n,
                      m_rightTrajectory := appendVectorToDeque (p_rightTrajectory p) (m_rightTrajectory s) n,
                      m_leftTwistTrajectory := appendVectorToDeque (p_leftTwistTrajectory p) (m_leftTwistTrajectory s) n,
                      m_rightTwistTrajectory := appendVectorToDeque (p_rightTwistTrajectory p) (m_rightTwistTrajectory s) n,
                      m_isLeftFixedFrame := appendVectorToDeque (p_isLeftFixedFrame p) (m_isLeftFixedFrame s) n,
                      m_DCMPositionDesired := appendVectorToDeque (p_DCMPositionDesired p) (m_DCMPositionDesired s) n,
                      m_DCMVelocityDesired := appendVectorToDeque (p_DCMVelocityDesired p) (m_DCMVelocityDesired s) n,
                      m_leftInContact := appendVectorToDeque (p_leftInContact p) (m_leftInContact s) n,
                      m_rightInContact := appendVectorToDeque (p_rightInContact p) (m_rightInContact s) n,
                      m_comHeightTrajectory := appendVectorToDeque (p_comHeightTrajectory p) (m_comHeightTrajectory s) n,
                      m_comHeightVelocity := appendVectorToDeque (p_comHeightVelocity p) (m_comHeightVelocity s) n\<rparr>
           in case p_mergePoints p of
                [] \<Rightarrow> Inl UndefinedBehaviour
              | _ # mps \<Rightarrow> Inr (True, s1\<lparr>m_mergePoints := mps\<rparr>))"

section \<open>WalkingModule: saturation of the vertical force\<close>

text \<open>\<open>saturateFz\<close>: the value returned and the value left in \<open>Fz\<close>.\<close>

definition saturateFz :: "real \<Rightarrow> real \<Rightarrow> bool \<times> real" where
  "saturateFz Fz thresholdFz =
     (if thresholdFz < 0 then (False, Fz)
      else if Fz \<ge> thresholdFz then (True, Fz)
      else if Fz < thresholdFz then (True, 0)
      else (True, Fz))"

section \<open>WalkingModule: updateModule\<close>

text \<open>\<open>WalkingModule::reset\<close> resets the controllers and the planner.\<close>

definition reset :: "('tf, 'tw) WalkingModule \<Rightarrow> ('tf, 'tw) WalkingModule" where
  "reset s = s\<lparr>events := events s @ [ResetModule]\<rparr>"

text \<open>The branch of the state \<open>Preparing\<close>; every path of it ends in \<open>return true\<close>.\<close>

definition preparing_tick ::
  "('tf, 'tw) TickEnv \<Rightarrow> ('tf, 'tw) WalkingModule \<Rightarrow> ('tf, 'tw) WalkingModule flow" where
  "preparing_tick env s =
     (if \<not> checkMotionDone_ok env then Returned True ((reset s)\<lparr>m_robotState := Stopped\<rparr>)
      else if motionDone env then
        (if \<not> switchToControlMode_ok env then Returned True ((reset s)\<lparr>m_robotState := Stopped\<rparr>)
         else let s1 = s\<lparr>events := events s @ [SetDirectPositionReferences]\<rparr>
              in if \<not> setDirectPositionReferences_ok env
                 then Returned True ((reset s1)\<lparr>m_robotState := Stopped\<rparr>)
                 else if m_DCMPositionDesired s1 = [] then Faulted UndefinedBehaviour
                 else Returned True (s1\<lparr>m_robotState := Prepared, indexmilad := 0\<rparr>))
      else Returned True s)"

text \<open>The steps of the branch of the state \<open>Walking\<close>, in the order of the source.\<close>

definition step_count :: "('tf, 'tw) WalkingModule \<Rightarrow> ('tf, 'tw) WalkingModule flow" where
  "step_count s = Running (s\<lparr>indexmilad := indexmilad s + 1\<rparr>)"

text \<open>The planner input read from the port, if there is one.\<close>

definition step_plannerInput ::
  "('tf, 'tw) TickEnv \<Rightarrow> ('tf, 'tw) WalkingModule \<Rightarrow> ('tf, 'tw) WalkingModule flow" where
  "step_plannerInput env s =
     (case desiredUnicyclePosition env of
        None \<Rightarrow> Running s
      | Some (x, y) \<Rightarrow> must (setPlannerInput x y s))"

text \<open>
  The goal is issued again when the first merge point is 21 and the port gave nothing;
  \<open>m_mergePoints.front()\<close> is read whether or not the deque is empty.
\<close>

definition step_terminalInput ::
  "('tf, 'tw) TickEnv \<Rightarrow> ('tf, 'tw) WalkingModule \<Rightarrow> ('tf, 'tw) WalkingModule flow" where
  "step_terminalInput env s =
     (case m_mergePoints s of
        [] \<Rightarrow> Faulted UndefinedBehaviour
      | mp # _ \<Rightarrow>
          if mp = 21 \<and> desiredUnicyclePosition env = None
          then must (setPlannerInput (fst (m_desiredPosition s)) (snd (m_desiredPosition s)) s)
          else Running s)"

text \<open>The counter at 20: the planner is asked for a trajectory.\<close>

definition step_ask ::
  "('tf, 'tw) TickEnv \<Rightarrow> ('tf, 'tw) WalkingModule \<Rightarrow> ('tf, 'tw) WalkingModule flow" where
  "step_ask env s =
     (case m_isLeftFixedFrame s of
        [] \<Rightarrow> Faulted UndefinedBehaviour
      | fixed # _ \<Rightarrow>
          if \<not> unat (m_newTrajectoryMergeCounter s)
                 < length (if fixed then m_rightTrajectory s else m_leftTrajectory s)
          then Faulted UndefinedBehaviour
          else must (askNewTrajectories env (m_newTrajectoryMergeCounter s) s))"

text \<open>The counter at 2: the trajectory computed is attached and the request is cleared.\<close>

definition step_graft ::
  "('tf, 'tw) TickEnv \<Rightarrow> ('tf, 'tw) WalkingModule \<Rightarrow> ('tf, 'tw) WalkingModule flow" where
  "step_graft env s =
     (case must (updateTrajectories env (m_newTrajectoryMergeCounter s) s) of
        Running s1 \<Rightarrow> Running (s1\<lparr>m_newTrajectoryRequired := False\<rparr>)
      | Returned b s1 \<Rightarrow> Returned b s1
      | Faulted e \<Rightarrow> Faulted e)"

definition step_countdown :: "('tf, 'tw) WalkingModule \<Rightarrow> ('tf, 'tw) WalkingModule flow" where
  "step_countdown s =
     Running (s\<lparr>m_newTrajectoryMergeCounter := m_newTrajectoryMergeCounter s - 1,
                indexmilad := 0\<rparr>)"

definition step_mergeScheduler ::
  "('tf, 'tw) TickEnv \<Rightarrow> ('tf, 'tw) WalkingModule \<Rightarrow> ('tf, 'tw) WalkingModule flow" where
  "step_mergeScheduler env =
     when_step m_newTrajectoryRequired
       (run_steps [when_step (\<lambda>s. m_newTrajectoryMergeCounter s = 20) (step_ask env),
                   when_step (\<lambda>s. m_newTrajectoryMergeCounter s = 2) (step_graft env),
                   step_countdown])"

definition step_gainScheduling ::
  "('tf, 'tw) TickEnv \<Rightarrow> ('tf, 'tw) WalkingModule \<Rightarrow> ('tf, 'tw) WalkingModule flow" where
  "step_gainScheduling env s =
     (if usingGainScheduling env then call (updatePhases_ok env) s else Running s)"

text \<open>\<open>getFeedbacks(100)\<close>.\<close>

definition step_feedback ::
  "('tf, 'tw) TickEnv \<Rightarrow> ('tf, 'tw) WalkingModule \<Rightarrow> ('tf, 'tw) WalkingModule flow" where
  "step_feedback env = call (getFeedbacks_ok env)"

text \<open>\<open>updateFKSolver\<close> reads the front of three queues and makes two calls.\<close>

definition updateFKSolver ::
  "('tf, 'tw) TickEnv \<Rightarrow> ('tf, 'tw) WalkingModule \<Rightarrow> ('tf, 'tw) WalkingModule flow" where
  "updateFKSolver env =
     run_steps [front_of m_leftTrajectory, front_of m_rightTrajectory,
                front_of m_isLeftFixedFrame,
                call (evaluateWorldToBaseTransformation_ok env),
                call (fk_setInternalRobotState_ok env)]"

text \<open>
  \<open>evaluateCoM\<close>, \<open>evaluateDCM\<close> and \<open>evaluateZMP\<close> work on the measured quantities only;
  each is taken by its result.
\<close>

definition step_measures ::
  "('tf, 'tw) TickEnv \<Rightarrow> ('tf, 'tw) WalkingModule \<Rightarrow> ('tf, 'tw) WalkingModule flow" where
  "step_measures env =
     run_steps [call (evaluateCoM_ok env), call (evaluateDCM_ok env), call (evaluateZMP_ok env)]"

text \<open>\<open>m_DCMPositionDesired.at(m_mergePoints.front())\<close>.\<close>

definition step_mildds :: "('tf, 'tw) WalkingModule \<Rightarrow> ('tf, 'tw) WalkingModule flow" where
  "step_mildds s =
     (case m_mergePoints s of
        [] \<Rightarrow> Faulted UndefinedBehaviour
      | mp # _ \<Rightarrow> if unat mp < length (m_DCMPositionDesired s) then Running s
                  else Faulted OutOfRange)"

text \<open>The reference of the pendulum model and the nominal quantities of the planner.\<close>

definition step_references ::
  "('tf, 'tw) TickEnv \<Rightarrow> ('tf, 'tw) WalkingModule \<Rightarrow> ('tf, 'tw) WalkingModule flow" where
  "step_references env =
     run_steps [front_of m_DCMPositionDesired,
                call (integrateModel_ok env),
                call (getCoMPosition_ok env),
                call (getCoMVelocity_ok env),
                call (getNominalCoMHeight_ok env),
                call (getSwitchOverSwingRatio_ok env)]"

text \<open>\<open>m_DCMPositionDesired[m_mergePoints.front()]\<close>.\<close>

definition reads_mergePointSample :: "('tf, 'tw) WalkingModule \<Rightarrow> ('tf, 'tw) WalkingModule flow" where
  "reads_mergePointSample s =
     (case m_mergePoints s of
        [] \<Rightarrow> Faulted UndefinedBehaviour
      | mp # _ \<Rightarrow> if unat mp < length (m_DCMPositionDesired s) then Running s
                  else Faulted UndefinedBehaviour)"

text \<open>
  The body shared by the two step-adaptation blocks: the nominal values are computed from
  step 1 of the swinging foot and step 0 of the other foot (read with \<open>at\<close>; \<open>otherSize\<close> is
  the number of steps of the other foot), then the adaptator is run if
  \<open>m_useStepAdaptation\<close> is set.
\<close>

definition adaptation_body ::
  "swing_branch \<Rightarrow> ('tf, 'tw) TickEnv \<Rightarrow> nat \<Rightarrow> ('tf, 'tw) WalkingModule
     \<Rightarrow> ('tf, 'tw) WalkingModule flow" where
  "adaptation_body branch env otherSize =
     run_steps [(\<lambda>s. if otherSize = 0 then Faulted OutOfRange else Running s),
                reads_mergePointSample,
                when_step m_useStepAdaptation
                  (run_steps [log_event (RunStepAdaptator branch),
                              call (RunStepAdaptator_ok env),
                              call (stepAdaptator_solve_ok env),
                              call (stepAdaptator_getControllerOutput_ok env)])]"

text \<open>
  The first block: \<open>2 == static_cast<int>(jRightFootPhases[indexmilad]) && jRightstepList.size() > 1\<close>.
  The phases are given by their integer codes.
\<close>

definition step_rightSwingAdaptation ::
  "('tf, 'tw) TickEnv \<Rightarrow> ('tf, 'tw) WalkingModule \<Rightarrow> ('tf, 'tw) WalkingModule flow" where
  "step_rightSwingAdaptation env s =
     (if \<not> (0 \<le> indexmilad s \<and> nat (indexmilad s) < length (jRightFootPhases env))
      then Faulted UndefinedBehaviour
      else if 2 = jRightFootPhases env ! nat (indexmilad s) \<and> jRightstepList_size env > 1
      then adaptation_body RightSwing env (jLeftstepList_size env) s
      else Running s)"

text \<open>The second block: \<open>false && jLeftstepList.size() > 1\<close>.\<close>

definition step_leftSwingAdaptation ::
  "('tf, 'tw) TickEnv \<Rightarrow> ('tf, 'tw) WalkingModule \<Rightarrow> ('tf, 'tw) WalkingModule flow" where
  "step_leftSwingAdaptation env s =
     (if False \<and> jLeftstepList_size env > 1
      then adaptation_body LeftSwing env (jRightstepList_size env) s
      else Running s)"

definition step_DCMController ::
  "('tf, 'tw) TickEnv \<Rightarrow> ('tf, 'tw) WalkingModule \<Rightarrow> ('tf, 'tw) WalkingModule flow" where
  "step_DCMController env s =
     (if m_useMPC s
      then run_steps [call (setConvexHullConstraint_ok env),
                      call (mpc_setFeedback_ok env),
                      call (mpc_setReferenceSignal_ok env),
                      call (mpc_solve_ok env),
                      call (mpc_getControllerOutput_ok env)] s
      else run_steps [front_of m_DCMPositionDesired,
                      front_of m_DCMVelocityDesired,
                      call (dcm_evaluateControl_ok env),
                      call (dcm_getControllerOutput_ok env)] s)"

definition step_ZMPController ::
  "('tf, 'tw) TickEnv \<Rightarrow> ('tf, 'tw) WalkingModule \<Rightarrow> ('tf, 'tw) WalkingModule flow" where
  "step_ZMPController env =
     run_steps [front_of m_DCMVelocityDesired,
                call (zmp_evaluateControl_ok env),
                call (zmp_getControllerOutput_ok env)]"

text \<open>\<open>solveQPIK\<close>, called with the osqp or with the qpOASES solver.\<close>

definition solveQPIK ::
  "('tf, 'tw) TickEnv \<Rightarrow> ('tf, 'tw) WalkingModule \<Rightarrow> ('tf, 'tw) WalkingModule flow" where
  "solveQPIK env =
     run_steps [call (qpik_setRobotState_ok env),
                front_of m_leftTrajectory, front_of m_rightTrajectory,
                front_of m_leftTwistTrajectory, front_of m_rightTwistTrajectory,
                call (qpik_solve_ok env),
                call (qpik_getSolution_ok env)]"

definition step_IK ::
  "('tf, 'tw) TickEnv \<Rightarrow> ('tf, 'tw) WalkingModule \<Rightarrow> ('tf, 'tw) WalkingModule flow" where
  "step_IK env =
     run_steps [front_of m_comHeightTrajectory, front_of m_comHeightVelocity,
                front_of m_leftTrajectory, front_of m_rightTrajectory,
                (\<lambda>s. if m_useQPIK s
                     then run_steps [call (qpik_setInternalRobotState_ok env),
                                     (if m_useOSQP s then solveQPIK env else solveQPIK env)] s
                     else when_step (\<lambda>_. usingAdditionalRotationTarget env)
                            (run_steps [call (updateIntertiaToWorldFrameRotation_ok env),
                                        call (setFullModelFeedBack_ok env),
                                        front_of m_leftTrajectory, front_of m_rightTrajectory,
                                        call (computeIK_ok env)]) s)]"

text \<open>\<open>setDirectPositionReferences(m_qDesired)\<close>: the joint references go to the robot.\<close>

definition step_setReferences ::
  "('tf, 'tw) TickEnv \<Rightarrow> ('tf, 'tw) WalkingModule \<Rightarrow> ('tf, 'tw) WalkingModule flow" where
  "step_setReferences env =
     run_steps [log_event SetDirectPositionReferences,
                call (setDirectPositionReferences_ok env)]"

text \<open>
  \<open>propagateTime\<close>, then \<open>advanceReferenceSignals\<close>, whose result is not looked at, then
  \<open>m_firstStep\<close> is cleared.
\<close>

definition step_advance :: "('tf, 'tw) WalkingModule \<Rightarrow> ('tf, 'tw) WalkingModule flow" where
  "step_advance s =
     (case advanceReferenceSignals (s\<lparr>m_time := m_time s + m_dT s\<rparr>) of
        Inl e \<Rightarrow> Faulted e
      | Inr (_, s') \<Rightarrow> Running (s'\<lparr>m_firstStep := False\<rparr>))"

text \<open>
  The steps up to the acquisition of the feedback, and the steps after it. The filter of
  the ZMP, the profiler and the logger take no part in the control flow and are left out.
\<close>

definition steps_before_feedback ::
  "('tf, 'tw) TickEnv \<Rightarrow> (('tf, 'tw) WalkingModule \<Rightarrow> ('tf, 'tw) WalkingModule flow) list" where
  "steps_before_feedback env =
     [step_count, step_plannerInput env, step_terminalInput env,
      step_mergeScheduler env, step_gainScheduling env]"

definition steps_after_feedback ::
  "('tf, 'tw) TickEnv \<Rightarrow> (('tf, 'tw) WalkingModule \<Rightarrow> ('tf, 'tw) WalkingModule flow) list" where
  "steps_after_feedback env =
     [updateFKSolver env, step_measures env, step_mildds, step_references env,
      step_rightSwingAdaptation env, step_leftSwingAdaptation env,
      step_DCMController env, step_ZMPController env, step_IK env,
      step_setReferences env, step_advance]"

definition walking_tick ::
  "('tf, 'tw) TickEnv \<Rightarrow> ('tf, 'tw) WalkingModule \<Rightarrow> ('tf, 'tw) WalkingModule flow" where
  "walking_tick env =
     run_steps (steps_before_feedback env @ [step_feedback env] @ steps_after_feedback env)"

definition updateModule ::
  "('tf, 'tw) TickEnv \<Rightarrow> ('tf, 'tw) WalkingModule \<Rightarrow> ('tf, 'tw) WalkingModule flow" where
  "updateModule env s =
     (if m_robotState s = Preparing then preparing_tick env s
      else if m_robotState s = Walking then
        (case walking_tick env s of
           Running s' \<Rightarrow> Returned True s'
         | Returned b s' \<Rightarrow> Returned b s'
         | Faulted e \<Rightarrow> Faulted e)
      else Returned True s)"

section \<open>Observations and concrete inputs\<close>

text \<open>The number of joint position references sent to the robot so far.\<close>

definition joint_commands :: "('tf, 'tw) WalkingModule \<Rightarrow> nat" where
  "joint_commands s = length (filter (\<lambda>e. e = SetDirectPositionReferences) (events s))"

text \<open>The runs of the step adaptator so far, in order.\<close>

fun is_adaptator_call :: "event \<Rightarrow> bool" where
  "is_adaptator_call (RunStepAdaptator _) = True"
| "is_adaptator_call _ = False"

definition adaptator_calls :: "('tf, 'tw) WalkingModule \<Rightarrow> event list" where
  "adaptator_calls s = filter is_adaptator_call (events s)"

text \<open>What a group of steps leaves as it is, whenever it goes on or returns.\<close>

definition obs_requests :: "('tf, 'tw) WalkingModule \<Rightarrow> WalkingFSM \<times> nat \<times> event list \<times> bool" where
  "obs_requests s = (m_robotState s, joint_commands s, adaptator_calls s, m_useStepAdaptation s)"

definition obs_calls :: "('tf, 'tw) WalkingModule \<Rightarrow> event list \<times> bool" where
  "obs_calls s = (adaptator_calls s, m_useStepAdaptation s)"

definition obs_adaptation :: "('tf, 'tw) WalkingModule \<Rightarrow> WalkingFSM \<times> event list \<times> bool \<times> int" where
  "obs_adaptation s = (m_robotState s, adaptator_calls s, m_useStepAdaptation s, indexmilad s)"

text \<open>
  A step keeps an observation when the observation is the same after the step, and the
  step returns nothing but \<open>false\<close>.
\<close>

definition keeps :: "('s \<Rightarrow> 'o) \<Rightarrow> ('s \<Rightarrow> 's flow) \<Rightarrow> bool" where
  "keeps obs f \<longleftrightarrow>
     (\<forall>s. case f s of Running s' \<Rightarrow> obs s' = obs s
              | Returned b s' \<Rightarrow> \<not> b \<and> obs s' = obs s
              | Faulted e \<Rightarrow> True)"

text \<open>The steps of the walking branch around the first step-adaptation block.\<close>

definition steps_before_adaptation ::
  "('tf, 'tw) TickEnv \<Rightarrow> (('tf, 'tw) WalkingModule \<Rightarrow> ('tf, 'tw) WalkingModule flow) list" where
  "steps_before_adaptation env =
     steps_before_feedback env @
       [step_feedback env, updateFKSolver env, step_measures env, step_mildds, step_references env]"

definition steps_after_adaptation ::
  "('tf, 'tw) TickEnv \<Rightarrow> (('tf, 'tw) WalkingModule \<Rightarrow> ('tf, 'tw) WalkingModule flow) list" where
  "steps_after_adaptation env =
     [step_leftSwingAdaptation env, step_DCMController env, step_ZMPController env, step_IK env,
      step_setReferences env, step_advance]"

text \<open>The condition of the first step-adaptation block at the index \<open>i\<close>.\<close>

definition right_swing_trigger :: "('tf, 'tw) TickEnv \<Rightarrow> int \<Rightarrow> bool" where
  "right_swing_trigger env i \<longleftrightarrow>
     0 \<le> i \<and> nat i < length (jRightFootPhases env)
     \<and> jRightFootPhases env ! nat i = 2 \<and> 1 < jRightstepList_size env"

text \<open>
  The condition under which \<open>advanceReferenceSignals\<close> is well defined and keeps the merge
  points in order: two samples or more in every queue, merge points strictly ascending and
  none of them zero.
\<close>

definition buffers_ready :: "('tf, 'tw) WalkingModule \<Rightarrow> bool" where
  "buffers_ready s \<longleftrightarrow> list_all (\<lambda>n. 2 \<le> n) (queue_lengths s)
      \<and> sorted_wrt (<) (m_mergePoints s) \<and> 0 \<notin> set (m_mergePoints s)"

text \<open>
  Concrete inputs of the step-adaptation problem: nominal next position 0.5, nominal
  sigma 1 (step duration 0), omega 1; tolerances 0.1; no measured offset.
\<close>

definition nominal_sample :: Vector where
  "nominal_sample = (\<lambda>i. [1 / 2, 1, 0, 0, 1] ! i)"

definition current_sample :: Vector where
  "current_sample = (\<lambda>i. [0, 0, 0] ! i)"

definition tolerance_sample :: Vector where
  "tolerance_sample = (\<lambda>i. [1 / 10, 1 / 10, 1 / 10, 0] ! i)"

definition alpha_first :: Vector where
  "alpha_first = (\<lambda>i. [1, 1, 1, 1] ! i)"

definition alpha_second :: Vector where
  "alpha_second = (\<lambda>i. [2, 2, 2, 2] ! i)"

text \<open>A solver on which the Hessian was set once and which was then initialized.\<close>

definition solver_after_first_solve :: QPSolver where
  "solver_after_first_solve =
     snd (initialize True (snd (setHessianMatrix True alpha_first (QPSolver_new 3 5))))"

definition adaptator_sample :: StepAdaptator where
  "adaptator_sample =
     \<lparr>m_nextDoubleSupportDuration = 0, m_currentTime = 0, m_stepTiming = 0,
      m_remainingSingleSupportDuration = 0, m_sigmaNominal = 0, m_omega = 0\<rparr>"

text \<open>
  A walking module with three samples in every queue and merge points 2 and 5, and
  collaborators that answer every call with success.
\<close>

definition sample_module :: "(unit, unit) WalkingModule" where
  "sample_module =
     \<lparr>m_robotState = Walking,
      m_leftTrajectory = [(), (), ()], m_rightTrajectory = [(), (), ()],
      m_leftTwistTrajectory = [(), (), ()], m_rightTwistTrajectory = [(), (), ()],
      m_leftInContact = [True, True, True], m_rightInContact = [True, False, False],
      m_isLeftFixedFrame = [True, True, True],
      m_DCMPositionDesired = [(0, 0), (0, 0), (0, 0)],
      m_DCMVelocityDesired = [(0, 0), (0, 0), (0, 0)],
      m_comHeightTrajectory = [1 / 2, 1 / 2, 1 / 2],
      m_comHeightVelocity = [0, 0, 0],
      m_mergePoints = [2, 5],
      m_newTrajectoryRequired = False,
      m_newTrajectoryMergeCounter = - 1,
      m_desiredPosition = (0, 0),
      m_time = 0, m_dT = 1 / 100,
      m_firstStep = True,
      indexmilad = 0,
      m_useMPC = False, m_useStepAdaptation = True, m_useQPIK = True, m_useOSQP = True,
      m_dumpData = False,
      events = []\<rparr>"

text \<open>The same module with a single sample in every queue.\<close>

definition singleton_module :: "(unit, unit) WalkingModule" where
  "singleton_module =
     sample_module\<lparr>m_leftTrajectory := [()], m_rightTrajectory := [()],
      m_leftTwistTrajectory := [()], m_rightTwistTrajectory := [()],
      m_leftInContact := [True], m_rightInContact := [True],
      m_isLeftFixedFrame := [True],
      m_DCMPositionDesired := [(0, 0)],
      m_DCMVelocityDesired := [(0, 0)],
      m_comHeightTrajectory := [1 / 2],
      m_comHeightVelocity := [0]\<rparr>"

text \<open>
  A module with a request pending, the counter at 15 and the first merge point at 25: the
  state after a stop during a pending request followed by a new preparation, which
  replaces the merge points and leaves flag and counter as they were.
\<close>

definition pending_module :: "(unit, unit) WalkingModule" where
  "pending_module =
     sample_module\<lparr>m_mergePoints := [25], m_newTrajectoryRequired := True,
                   m_newTrajectoryMergeCounter := 15\<rparr>"

definition pending_near_module :: "(unit, unit) WalkingModule" where
  "pending_near_module =
     sample_module\<lparr>m_newTrajectoryRequired := True, m_newTrajectoryMergeCounter := 15\<rparr>"

definition sample_env :: "(unit, unit) TickEnv" where
  "sample_env =
     \<lparr>checkMotionDone_ok = True, motionDone = True, switchToControlMode_ok = True,
      setDirectPositionReferences_ok = True,
      desiredUnicyclePosition = None,
      planner_updateTrajectories_ok = True, isTrajectoryComputed = True,
      planned = \<lparr>p_leftTrajectory = [], p_rightTrajectory = [],
                 p_leftTwistTrajectory = [], p_rightTwistTrajectory = [],
                 p_leftInContact = [], p_rightInContact = [], p_isLeftFixedFrame = [],
                 p_DCMPositionDesired = [], p_DCMVelocityDesired = [],
                 p_comHeightTrajectory = [], p_comHeightVelocity = [],
                 p_mergePoints = []\<rparr>,
      usingGainScheduling = False, updatePhases_ok = True,
      getFeedbacks_ok = True,
      evaluateWorldToBaseTransformation_ok = True, fk_setInternalRobotState_ok = True,
      evaluateCoM_ok = True, evaluateDCM_ok = True, evaluateZMP_ok = True,
      integrateModel_ok = True, getCoMPosition_ok = True, getCoMVelocity_ok = True,
      getNominalCoMHeight_ok = True, getSwitchOverSwingRatio_ok = True,
      jLeftstepList_size = 1, jRightstepList_size = 2, jRightFootPhases = [0, 2],
      RunStepAdaptator_ok = True, stepAdaptator_solve_ok = True,
      stepAdaptator_getControllerOutput_ok = True,
      setConvexHullConstraint_ok = True, mpc_setFeedback_ok = True,
      mpc_setReferenceSignal_ok = True, mpc_solve_ok = True, mpc_getControllerOutput_ok = True,
      dcm_evaluateControl_ok = True, dcm_getControllerOutput_ok = True,
      zmp_evaluateControl_ok = True, zmp_getControllerOutput_ok = True,
      qpik_setInternalRobotState_ok = True, qpik_setRobotState_ok = True,
      qpik_solve_ok = True, qpik_getSolution_ok = True,
      usingAdditionalRotationTarget = False,
      updateIntertiaToWorldFrameRotation_ok = True, setFullModelFeedBack_ok = True,
      computeIK_ok = True\<rparr>"

text \<open>The same collaborators, with the acquisition of the feedback failing.\<close>

definition sample_failing_env :: "(unit, unit) TickEnv" where
  "sample_failing_env = sample_env\<lparr>getFeedbacks_ok := False\<rparr>"

section \<open>The step-adaptation problem\<close>

lemma upt_3: "[0..<3] = [0, 1, 2::nat]"
  by (simp add: upt_rec)

lemma upt_5: "[0..<5] = [0, 1, 2, 3, 4::nat]"
  by (simp add: upt_rec)

lemma dims_constraints:
  "rows (evaluateConstraintsMatrix c) = 5" "cols (evaluateConstraintsMatrix c) = 3"
  by (simp_all add: evaluateConstraintsMatrix_def insert_coeff_def resize_def)

lemma coeff_constraints:
  "coeff (evaluateConstraintsMatrix c) i j =
     (if (i, j) = (0, 0) then 1
      else if (i, j) = (0, 1) then (c 0 + c 2) - c 1 - (c 2) / 2
      else if (i, j) = (0, 2) then 1
      else if (i, j) = (1, 0) then 1
      else if (i, j) = (2, 0) then - 1
      else if (i, j) = (3, 1) then 1
      else if (i, j) = (4, 1) then - 1
      else 0)"
  by (simp add: coeff_def evaluateConstraintsMatrix_def insert_coeff_def resize_def)

lemma row_times_constraints:
  "row_times (evaluateConstraintsMatrix c) x i =
     (if i = 0 then x 0 + ((c 0 + c 2) - c 1 - (c 2) / 2) * x 1 + x 2
      else if i = 1 then x 0
      else if i = 2 then - x 0
      else if i = 3 then x 1
      else if i = 4 then - x 1
      else 0)"
  by (simp add: row_times_def dims_constraints upt_3 coeff_constraints)

lemma matrix_after_set:
  "m_constraintsMAtrix (snd (setConstraintsMatrix ok c s)) = evaluateConstraintsMatrix c"
  by (simp add: setConstraintsMatrix_def Let_def)

lemma bounds_after_set:
  "m_upperBound (snd (setBoundsVectorOfConstraints INFTY ok1 ok2 nom c tol s)) =
     [c 2 / 2 + c 0, nom 0 + tol 0, nom 0 - tol 1,
      exp ((ln (nom 1) / nom 4 + tol 2) * nom 4), exp ((ln (nom 1) / nom 4 - tol 2) * nom 4)]"
  "m_lowerBound (snd (setBoundsVectorOfConstraints INFTY ok1 ok2 nom c tol s)) =
     [c 2 / 2 + c 0, - INFTY, - INFTY, - INFTY, - INFTY]"
  by (simp_all add: setBoundsVectorOfConstraints_def Let_def)

lemma admits_constraints:
  "admits (evaluateConstraintsMatrix c) l u x \<longleftrightarrow>
     (l ! 0 \<le> x 0 + ((c 0 + c 2) - c 1 - (c 2) / 2) * x 1 + x 2
        \<and> x 0 + ((c 0 + c 2) - c 1 - (c 2) / 2) * x 1 + x 2 \<le> u ! 0)
     \<and> (l ! 1 \<le> x 0 \<and> x 0 \<le> u ! 1)
     \<and> (l ! 2 \<le> - x 0 \<and> - x 0 \<le> u ! 2)
     \<and> (l ! 3 \<le> x 1 \<and> x 1 \<le> u ! 3)
     \<and> (l ! 4 \<le> - x 1 \<and> - x 1 \<le> u ! 4)"
  by (simp add: admits_def dims_constraints upt_5 row_times_constraints)

text \<open>
  What the four inequality rows do bound: \<open>z\<close> from above by the nominal position plus
  the tolerance and from below by the negated third upper bound, \<open>sigma\<close> from above by
  the exponential of the longer duration and from below by the negated fifth upper bound.
\<close>

lemma inequality_rows_enforce:
  assumes "admits (m_constraintsMAtrix (snd (setConstraintsMatrix okA cur s)))
              (m_lowerBound (snd (setBoundsVectorOfConstraints INFTY okL okU nom cur tol s')))
              (m_upperBound (snd (setBoundsVectorOfConstraints INFTY okL okU nom cur tol s')))
              (solution z sigma delta)"
  shows "z \<le> nom 0 + tol 0 \<and> - (nom 0 - tol 1) \<le> z
       \<and> sigma \<le> exp ((ln (nom 1) / nom 4 + tol 2) * nom 4)
       \<and> - exp ((ln (nom 1) / nom 4 - tol 2) * nom 4) \<le> sigma"
  using assms
  by (simp add: matrix_after_set bounds_after_set admits_constraints solution_def)

text \<open>
  C1 (evaluation of the code at an input where the claim fails). With nominal next
  position 0.5, nominal sigma 1, omega 1 and all tolerances 0.1, the matrix of
  \<open>setConstraintsMatrix\<close> and the bounds of \<open>setBoundsVectorOfConstraints\<close> admit the point
  \<open>z = 0\<close>, \<open>sigma = 0\<close>, \<open>delta = 0\<close>, although \<open>z\<close> is below the nominal position minus
  the tolerance and \<open>sigma\<close> is below the exponential of the shorter duration: rows 2 and 4
  do not enforce the lower limits.
\<close>

theorem C1_lower_limits_not_enforced:
  "admits (m_constraintsMAtrix (snd (setConstraintsMatrix True current_sample (QPSolver_new 3 5))))
          (m_lowerBound (snd (setBoundsVectorOfConstraints (10 ^ 30) True True
                                nominal_sample current_sample tolerance_sample (QPSolver_new 3 5))))
          (m_upperBound (snd (setBoundsVectorOfConstraints (10 ^ 30) True True
                                nominal_sample current_sample tolerance_sample (QPSolver_new 3 5))))
          (solution 0 0 0)
   \<and> \<not> (nominal_sample 0 - tolerance_sample 1 \<le> solution 0 0 0 0)
   \<and> \<not> (exp ((ln (nominal_sample 1) / nominal_sample 4 - tolerance_sample 2) * nominal_sample 4)
          \<le> solution 0 0 0 1)"
  by (simp add: matrix_after_set bounds_after_set admits_constraints solution_def
      nominal_sample_def current_sample_def tolerance_sample_def)

text \<open>
  C2: the first constraint row has the coefficients
  \<open>(1, currentZMP + currentOffset - currentDCM - currentOffset / 2, 1)\<close> over
  \<open>(z, sigma, delta)\<close>, its lower and its upper bound are both
  \<open>currentOffset / 2 + currentZMP\<close>, and every point admitted by the constraints
  satisfies the equality exactly.
\<close>

theorem C2_pinned_equality:
  "coeff (m_constraintsMAtrix (snd (setConstraintsMatrix okA cur s))) 0 0 = 1
   \<and> coeff (m_constraintsMAtrix (snd (setConstraintsMatrix okA cur s))) 0 1
       = cur 0 + cur 2 - cur 1 - cur 2 / 2
   \<and> coeff (m_constraintsMAtrix (snd (setConstraintsMatrix okA cur s))) 0 2 = 1
   \<and> m_lowerBound (snd (setBoundsVectorOfConstraints INFTY okL okU nom cur tol s')) ! 0
       = cur 2 / 2 + cur 0
   \<and> m_upperBound (snd (setBoundsVectorOfConstraints INFTY okL okU nom cur tol s')) ! 0
       = cur 2 / 2 + cur 0
   \<and> (admits (m_constraintsMAtrix (snd (setConstraintsMatrix okA cur s)))
              (m_lowerBound (snd (setBoundsVectorOfConstraints INFTY okL okU nom cur tol s')))
              (m_upperBound (snd (setBoundsVectorOfConstraints INFTY okL okU nom cur tol s')))
              (solution z sigma delta)
        \<longrightarrow> z + (cur 0 + cur 2 - cur 1 - cur 2 / 2) * sigma + delta = cur 2 / 2 + cur 0)"
  by (simp add: matrix_after_set bounds_after_set coeff_constraints admits_constraints solution_def)

text \<open>
  C2 at a concrete input: the point \<open>z = 0.5\<close>, \<open>sigma = 1\<close>, \<open>delta = - 0.5\<close> is admitted
  and satisfies the equality.
\<close>

theorem C2_pinned_equality_witness:
  "admits (m_constraintsMAtrix (snd (setConstraintsMatrix True current_sample (QPSolver_new 3 5))))
          (m_lowerBound (snd (setBoundsVectorOfConstraints (10 ^ 30) True True
                                nominal_sample current_sample tolerance_sample (QPSolver_new 3 5))))
          (m_upperBound (snd (setBoundsVectorOfConstraints (10 ^ 30) True True
                                nominal_sample current_sample tolerance_sample (QPSolver_new 3 5))))
          (solution (1 / 2) 1 (- 1 / 2))
   \<and> 1 / 2 + (current_sample 0 + current_sample 2 - current_sample 1 - current_sample 2 / 2) * 1
        + (- 1 / 2) = current_sample 2 / 2 + current_sample 0"
proof -
  have e: "- 1 \<le> exp (- (1 / 10) :: real)"
    using exp_ge_zero [of "- (1 / 10) :: real"] by linarith
  show ?thesis
    using C2_pinned_equality [of True current_sample "QPSolver_new 3 5" "10 ^ 30" True True
        nominal_sample tolerance_sample "QPSolver_new 3 5" "1 / 2" 1 "- 1 / 2"] e
    by (simp add: matrix_after_set bounds_after_set admits_constraints solution_def
        nominal_sample_def current_sample_def tolerance_sample_def)
qed

section \<open>The Hessian\<close>

text \<open>
  C6 (the claim fails): on a solver that was given a Hessian and then initialized, a
  second call of \<open>setHessianMatrix\<close> returns \<open>true\<close>, not failure, and the copy of the
  Hessian that the wrapper keeps in \<open>m_hessian\<close> is replaced.
\<close>

theorem C6_second_call_succeeds:
  "isInitialized (m_QPSolver solver_after_first_solve)
   \<and> fst (setHessianMatrix True alpha_second solver_after_first_solve) = True
   \<and> m_hessian (snd (setHessianMatrix True alpha_second solver_after_first_solve))
       \<noteq> m_hessian solver_after_first_solve"
  by (simp add: solver_after_first_solve_def setHessianMatrix_def initialize_def Let_def
      QPSolver_new_def data_setHessianMatrix_def Hessian_of_def insert_coeff_def resize_def
      alpha_first_def alpha_second_def)

text \<open>
  C6 (amended): a call of \<open>setHessianMatrix\<close> on an initialized solver returns success and
  leaves the underlying solver, and with it the Hessian stored there, as it was, for every
  argument of the call; the copy in \<open>m_hessian\<close> becomes the matrix of this call.
\<close>

theorem C6_second_call_keeps_solver:
  "isInitialized (m_QPSolver s) \<Longrightarrow>
     fst (setHessianMatrix ok alpha s) = True
     \<and> m_QPSolver (snd (setHessianMatrix ok alpha s)) = m_QPSolver s
     \<and> hessianMatrix (m_QPSolver (snd (setHessianMatrix ok alpha s))) = hessianMatrix (m_QPSolver s)
     \<and> m_hessian (snd (setHessianMatrix ok alpha s)) = Hessian_of alpha"
  by (simp add: setHessianMatrix_def Let_def)

text \<open>
  C6 (amended) at a concrete input: after the second call the solver still holds the
  Hessian of the first call.
\<close>

theorem C6_second_call_keeps_solver_witness:
  "isInitialized (m_QPSolver solver_after_first_solve)
   \<and> fst (setHessianMatrix True alpha_second solver_after_first_solve) = True
   \<and> hessianMatrix (m_QPSolver (snd (setHessianMatrix True alpha_second solver_after_first_solve)))
       = Some (Hessian_of alpha_first)"
  using C6_second_call_keeps_solver [of solver_after_first_solve True alpha_second]
  by (simp add: solver_after_first_solve_def setHessianMatrix_def initialize_def Let_def
      QPSolver_new_def data_setHessianMatrix_def)

lemma coeff_Hessian:
  "coeff (Hessian_of a) i j =
     (if (i, j) = (0, 0) then a 0 + a 3
      else if (i, j) = (0, 2) then a 0
      else if (i, j) = (1, 1) then a 2
      else if (i, j) = (2, 0) then a 0
      else if (i, j) = (2, 2) then a 0 + a 1
      else 0)"
  by (simp add: coeff_def Hessian_of_def insert_coeff_def resize_def)

lemma quadratic_form_Hessian:
  "quadratic_form (Hessian_of a) x =
     a 0 * (x 0 + x 2)\<^sup>2 + a 3 * (x 0)\<^sup>2 + a 2 * (x 1)\<^sup>2 + a 1 * (x 2)\<^sup>2"
proof -
  have dims: "rows (Hessian_of a) = 3" "cols (Hessian_of a) = 3"
    by (simp_all add: Hessian_of_def insert_coeff_def resize_def)
  show ?thesis
    by (simp add: quadratic_form_def row_times_def dims upt_3 coeff_Hessian
        power2_eq_square algebra_simps)
qed

lemma sum_of_weighted_squares_positive:
  fixes a0 a1 a2 a3 x0 x1 x2 :: real
  assumes "0 < a0" "0 < a1" "0 < a2" "0 < a3"
    and nz: "x0 \<noteq> 0 \<or> x1 \<noteq> 0 \<or> x2 \<noteq> 0"
  shows "0 < a0 * (x0 + x2)\<^sup>2 + a3 * x0\<^sup>2 + a2 * x1\<^sup>2 + a1 * x2\<^sup>2"
proof -
  have t0: "0 \<le> a0 * (x0 + x2)\<^sup>2" using assms(1) by simp
  have t3: "0 \<le> a3 * x0\<^sup>2" using assms(4) by simp
  have t2: "0 \<le> a2 * x1\<^sup>2" using assms(3) by simp
  have t1: "0 \<le> a1 * x2\<^sup>2" using assms(2) by simp
  from nz consider "x0 \<noteq> 0" | "x1 \<noteq> 0" | "x2 \<noteq> 0" by blast
  then show ?thesis
  proof cases
    case 1
    then have "0 < a3 * x0\<^sup>2" using assms(4) by simp
    with t0 t1 t2 show ?thesis by linarith
  next
    case 2
    then have "0 < a2 * x1\<^sup>2" using assms(3) by simp
    with t0 t1 t3 show ?thesis by linarith
  next
    case 3
    then have "0 < a1 * x2\<^sup>2" using assms(2) by simp
    with t0 t2 t3 show ?thesis by linarith
  qed
qed

text \<open>
  C10: the Hessian that \<open>setHessianMatrix\<close> builds from the gains \<open>alpha\<close> has the entries
  \<open>H(0,0) = alpha(0) + alpha(3)\<close>, \<open>H(0,2) = H(2,0) = alpha(0)\<close>, \<open>H(1,1) = alpha(2)\<close>,
  \<open>H(2,2) = alpha(0) + alpha(1)\<close>; it is symmetric, and positive definite when the four
  gains are positive.
\<close>

theorem C10_hessian_symmetric_positive_definite:
  "(\<forall>i j. coeff (m_hessian (snd (setHessianMatrix ok alpha s))) i j
          = coeff (m_hessian (snd (setHessianMatrix ok alpha s))) j i)
   \<and> coeff (m_hessian (snd (setHessianMatrix ok alpha s))) 0 0 = alpha 0 + alpha 3
   \<and> coeff (m_hessian (snd (setHessianMatrix ok alpha s))) 0 2 = alpha 0
   \<and> coeff (m_hessian (snd (setHessianMatrix ok alpha s))) 2 0 = alpha 0
   \<and> coeff (m_hessian (snd (setHessianMatrix ok alpha s))) 1 1 = alpha 2
   \<and> coeff (m_hessian (snd (setHessianMatrix ok alpha s))) 2 2 = alpha 0 + alpha 1
   \<and> coeff (m_hessian (snd (setHessianMatrix ok alpha s))) 0 1 = 0
   \<and> coeff (m_hessian (snd (setHessianMatrix ok alpha s))) 1 0 = 0
   \<and> coeff (m_hessian (snd (setHessianMatrix ok alpha s))) 1 2 = 0
   \<and> coeff (m_hessian (snd (setHessianMatrix ok alpha s))) 2 1 = 0
   \<and> (0 < alpha 0 \<and> 0 < alpha 1 \<and> 0 < alpha 2 \<and> 0 < alpha 3 \<longrightarrow>
        (\<forall>x. x 0 \<noteq> 0 \<or> x 1 \<noteq> 0 \<or> x 2 \<noteq> 0 \<longrightarrow>
           0 < quadratic_form (m_hessian (snd (setHessianMatrix ok alpha s))) x))"
proof -
  have H: "m_hessian (snd (setHessianMatrix ok alpha s)) = Hessian_of alpha"
    by (simp add: setHessianMatrix_def Let_def)
  have sym: "coeff (Hessian_of alpha) i j = coeff (Hessian_of alpha) j i" for i j
    by (auto simp: coeff_Hessian)
  have pd: "0 < quadratic_form (Hessian_of alpha) x"
    if "0 < alpha 0 \<and> 0 < alpha 1 \<and> 0 < alpha 2 \<and> 0 < alpha 3"
      and "x 0 \<noteq> 0 \<or> x 1 \<noteq> 0 \<or> x 2 \<noteq> 0" for x
    unfolding quadratic_form_Hessian
    using sum_of_weighted_squares_positive
      [of "alpha 0" "alpha 1" "alpha 2" "alpha 3" "x 0" "x 1" "x 2"] that
    by blast
  show ?thesis
    unfolding H using sym pd by (simp add: coeff_Hessian)
qed

text \<open>C10 at the gains \<open>(1, 1, 1, 1)\<close> and the vector \<open>(1, 0, 0)\<close>.\<close>

theorem C10_hessian_witness:
  "0 < alpha_first 0 \<and> 0 < alpha_first 1 \<and> 0 < alpha_first 2 \<and> 0 < alpha_first 3
   \<and> 0 < quadratic_form (m_hessian (snd (setHessianMatrix True alpha_first (QPSolver_new 3 5))))
           (\<lambda>i. [1, 0, 0] ! i)"
  using C10_hessian_symmetric_positive_definite [of True alpha_first "QPSolver_new 3 5"]
  by (simp add: alpha_first_def)

section \<open>Timings\<close>

text \<open>
  C7: for \<open>omega > 0\<close> and every \<open>T\<close>, when component 2 of the solution is
  \<open>exp (omega * T)\<close>, \<open>getDesiredImpactTime\<close> after \<open>setTimings\<close> decodes it to
  \<open>currentTime + T - nextDoubleSupportDuration / 2\<close>; the nominal sigma stored by
  \<open>setTimings\<close> is \<open>exp (omega * (nextImpactTime + nextDoubleSupportDuration / 2 - currentTime))\<close>,
  so that on the nominal sigma the decoding gives back the next impact time; and the
  logarithm of the nominal sigma divided by omega is the step timing it was built from.
\<close>

theorem C7_sigma_time_round_trip:
  assumes "0 < omega" and "sol 2 = exp (omega * T)"
  shows "getDesiredImpactTime sol (setTimings omega currentTime nextImpactTime nextDoubleSupportDuration a)
           = currentTime + T - nextDoubleSupportDuration / 2
         \<and> m_sigmaNominal (setTimings omega currentTime nextImpactTime nextDoubleSupportDuration a)
           = exp (omega * (nextImpactTime + nextDoubleSupportDuration / 2 - currentTime))
         \<and> (T = nextImpactTime + nextDoubleSupportDuration / 2 - currentTime \<longrightarrow>
              getDesiredImpactTime sol
                (setTimings omega currentTime nextImpactTime nextDoubleSupportDuration a)
              = nextImpactTime)
         \<and> ln (m_sigmaNominal (setTimings omega currentTime nextImpactTime nextDoubleSupportDuration a))
             / omega
           = m_stepTiming (setTimings omega currentTime nextImpactTime nextDoubleSupportDuration a)"
  using assms by (simp add: getDesiredImpactTime_def setTimings_def Let_def)

text \<open>
  C7 at \<open>omega = 4\<close>, current time 0.1, next impact time 0.5 and double support
  duration 0.2: a solution with sigma \<open>exp (4 * 1)\<close> is decoded to the impact time 1, and
  a solution with the nominal sigma \<open>exp (4 * 0.5)\<close> to the next impact time 0.5.
\<close>

theorem C7_sigma_time_round_trip_witness:
  "0 < (4::real)
   \<and> getDesiredImpactTime (\<lambda>i. [1 / 2, 0, exp (4 * 1)] ! i)
        (setTimings 4 (1 / 10) (1 / 2) (1 / 5) adaptator_sample) = 1
   \<and> getDesiredImpactTime (\<lambda>i. [1 / 2, 0, exp (4 * (1 / 2))] ! i)
        (setTimings 4 (1 / 10) (1 / 2) (1 / 5) adaptator_sample) = 1 / 2"
  using C7_sigma_time_round_trip
      [of 4 "\<lambda>i. [1 / 2, 0, exp (4 * 1)] ! i" 1 "1 / 10" "1 / 2" "1 / 5" adaptator_sample]
    C7_sigma_time_round_trip
      [of 4 "\<lambda>i. [1 / 2, 0, exp (4 * (1 / 2))] ! i" "1 / 2" "1 / 10" "1 / 2" "1 / 5"
        adaptator_sample]
  by (simp add: setTimings_def Let_def adaptator_sample_def)

section \<open>Saturation of the vertical force\<close>

text \<open>
  What \<open>saturateFz\<close> does away from zero: a negative threshold is rejected, a positive one
  is accepted and the force below it is set to zero.
\<close>

lemma saturateFz_nonzero_threshold:
  "(thresholdFz < 0 \<longrightarrow> saturateFz Fz thresholdFz = (False, Fz))
   \<and> (0 < thresholdFz \<longrightarrow> saturateFz Fz thresholdFz = (True, if Fz \<ge> thresholdFz then Fz else 0))"
  by (simp add: saturateFz_def)

text \<open>
  C9 (evaluation of the code at an input where the claim fails): with the threshold 0 and
  the force 5, \<open>saturateFz\<close> returns \<open>true\<close> and leaves the force as it is.
\<close>

theorem C9_zero_threshold_accepted: "saturateFz 5 0 = (True, 5)"
  by (simp add: saturateFz_def)

section \<open>Advancing the reference buffers\<close>

lemma length_pop_push: "2 \<le> length q \<Longrightarrow> length (pop_push q) = length q"
  by (cases q) (simp_all add: pop_push_def)

lemma unat_sub_of_nat:
  fixes m :: size_t
  assumes "n < unat m"
  shows "unat (m - of_nat n) = unat m - n"
proof -
  have u: "unat (of_nat n :: size_t) = n"
    using assms by (intro le_unat_uoi [of n m]) simp
  then have "(of_nat n :: size_t) \<le> m"
    using assms by (simp add: word_le_nat_alt)
  then show ?thesis
    by (simp add: unat_sub u)
qed

text \<open>
  On merge points that are strictly ascending and not zero, one advance decrements each of
  them and drops the one that was 1.
\<close>

lemma advance_mergePoints_sorted:
  assumes "sorted_wrt (<) mps" and "0 \<notin> set mps"
  shows "advance_mergePoints mps = map (\<lambda>m. m - 1) (filter (\<lambda>m. 1 < unat m) mps)"
proof (cases mps)
  case Nil
  then show ?thesis by (simp add: advance_mergePoints_def)
next
  case (Cons m rest)
  with assms have m0: "m \<noteq> 0" and above: "\<forall>r\<in>set rest. m < r"
    by auto
  from m0 have pos: "0 < unat m" by (simp add: unat_gt_0)
  with above have "\<forall>r\<in>set rest. 1 < unat r"
    by (auto simp: word_less_nat_alt)
  then have keep: "filter (\<lambda>m. 1 < unat m) rest = rest"
    by (simp add: filter_id_conv)
  show ?thesis
  proof (cases "m = 1")
    case True
    with Cons keep show ?thesis
      by (simp add: advance_mergePoints_def)
  next
    case False
    have "unat m \<noteq> 1"
    proof
      assume "unat m = 1"
      then have "unat m = unat (1 :: size_t)" by simp
      then have "m = 1" by (simp only: word_unat_eq_iff)
      with False show False by simp
    qed
    with pos have "1 < unat m" by simp
    moreover from False have "m - 1 \<noteq> 0" by simp
    ultimately show ?thesis using Cons keep
      by (simp add: advance_mergePoints_def)
  qed
qed

lemma after_sorted:
  assumes "sorted_wrt (<) (mps :: size_t list)"
  shows "sorted_wrt (<) (map (\<lambda>m. m - of_nat n) (filter (\<lambda>m. n < unat m) mps))
         \<and> 0 \<notin> set (map (\<lambda>m. m - of_nat n) (filter (\<lambda>m. n < unat m) mps))"
proof -
  have s: "sorted_wrt (<) (filter (\<lambda>m. n < unat m) mps)"
    using assms by (rule sorted_wrt_filter)
  have mono: "a - of_nat n < b - of_nat n"
    if "a \<in> set (filter (\<lambda>m. n < unat m) mps)" "b \<in> set (filter (\<lambda>m. n < unat m) mps)" "a < b"
    for a b :: size_t
    using that by (auto simp: word_less_nat_alt unat_sub_of_nat)
  have "sorted_wrt (\<lambda>a b. a - of_nat n < b - of_nat n) (filter (\<lambda>m. n < unat m) mps)"
    using s mono by (rule sorted_wrt_mono_rel [rotated])
  then have 1: "sorted_wrt (<) (map (\<lambda>m. m - of_nat n) (filter (\<lambda>m. n < unat m) mps))"
    by (simp add: sorted_wrt_map)
  have 2: "m - of_nat n \<noteq> 0" if "n < unat m" for m :: size_t
  proof
    assume "m - of_nat n = 0"
    then have "unat (m - of_nat n) = 0" by simp
    with unat_sub_of_nat [OF that] that show False by simp
  qed
  from 1 2 show ?thesis by auto
qed

lemma after_Suc:
  "map (\<lambda>m. m - of_nat n) (filter (\<lambda>m. n < unat m)
       (map (\<lambda>m. m - 1) (filter (\<lambda>m. 1 < unat m) (mps :: size_t list))))
   = map (\<lambda>m. m - of_nat (Suc n)) (filter (\<lambda>m. Suc n < unat m) mps)"
proof -
  have f: "filter (\<lambda>m. 1 < unat m \<and> n < unat (m - 1)) mps = filter (\<lambda>m. Suc n < unat m) mps"
  proof (rule filter_cong [OF refl])
    fix m :: size_t
    show "(1 < unat m \<and> n < unat (m - 1)) = (Suc n < unat m)"
    proof (cases "m = 0")
      case True
      then show ?thesis by simp
    next
      case False
      then show ?thesis by (auto simp: unat_minus_one)
    qed
  qed
  show ?thesis
    by (simp add: filter_map o_def f [symmetric] conj_commute)
qed

lemma advance_once:
  assumes "buffers_ready s"
  shows "\<exists>s'. advanceReferenceSignals s = Inr (True, s') \<and> queue_lengths s' = queue_lengths s
           \<and> m_mergePoints s' = map (\<lambda>m. m - 1) (filter (\<lambda>m. 1 < unat m) (m_mergePoints s))"
proof -
  from assms have len: "list_all (\<lambda>n. 2 \<le> n) (queue_lengths s)"
    and srt: "sorted_wrt (<) (m_mergePoints s)" and nz: "0 \<notin> set (m_mergePoints s)"
    by (simp_all add: buffers_ready_def)
  from len show ?thesis
    by (auto simp: advanceReferenceSignals_def queue_lengths_def length_pop_push
        advance_mergePoints_sorted [OF srt nz])
qed

lemma advance_many:
  "buffers_ready s \<Longrightarrow>
     \<exists>s'. advance_times N s = Inr (True, s') \<and> queue_lengths s' = queue_lengths s
       \<and> m_mergePoints s' = map (\<lambda>m. m - of_nat N) (filter (\<lambda>m. N < unat m) (m_mergePoints s))"
proof (induction N arbitrary: s)
  case 0
  then have "filter (\<lambda>m. 0 < unat m) (m_mergePoints s) = m_mergePoints s"
    by (auto simp: buffers_ready_def filter_id_conv unat_gt_0)
  then show ?case by simp
next
  case (Suc N)
  from advance_once [OF Suc.prems] obtain s1 where
    s1: "advanceReferenceSignals s = Inr (True, s1)" "queue_lengths s1 = queue_lengths s"
      "m_mergePoints s1 = map (\<lambda>m. m - 1) (filter (\<lambda>m. 1 < unat m) (m_mergePoints s))"
    by blast
  have "buffers_ready s1"
    using Suc.prems s1(2,3) after_sorted [of "m_mergePoints s" 1]
    by (simp add: buffers_ready_def)
  from Suc.IH [OF this] obtain s' where
    s': "advance_times N s1 = Inr (True, s')" "queue_lengths s' = queue_lengths s1"
      "m_mergePoints s' = map (\<lambda>m. m - of_nat N) (filter (\<lambda>m. N < unat m) (m_mergePoints s1))"
    by blast
  have "m_mergePoints s' = map (\<lambda>m. m - of_nat (Suc N)) (filter (\<lambda>m. Suc N < unat m) (m_mergePoints s))"
    unfolding s'(3) s1(3) by (rule after_Suc)
  with s1 s' show ?case by simp
qed

text \<open>
  C3 (the claim fails): with a single sample in every queue the advance calls \<open>back\<close> on
  a deque it has just emptied, which is undefined; and on the strictly ascending merge
  points 0 and 5 the advance wraps the first entry around to the largest \<open>size_t\<close> (written
  \<open>- 1\<close>) and keeps it, so that the queue is no longer ascending.
\<close>

theorem C3_advance_counterexample:
  "advanceReferenceSignals singleton_module = Inl UndefinedBehaviour
   \<and> sorted_wrt (<) [0, 5 :: size_t]
   \<and> map_sum id (m_mergePoints \<circ> snd)
        (advanceReferenceSignals (sample_module\<lparr>m_mergePoints := [0, 5]\<rparr>)) = Inr [- 1, 4]
   \<and> \<not> sorted_wrt (<) [- 1, 4 :: size_t]"
  by (simp add: advanceReferenceSignals_def singleton_module_def sample_module_def
      advance_mergePoints_def)

text \<open>
  C3 (amended): when every trajectory queue holds at least two samples and the merge
  points are strictly ascending and not zero, \<open>N\<close> advances in a row all succeed, leave
  the length of every trajectory queue unchanged, and leave as merge points the entries
  that were greater than \<open>N\<close>, each decremented by \<open>N\<close>, strictly ascending; one advance
  is the case \<open>N = 1\<close>.
\<close>

theorem C3_advance_preserves_buffers:
  assumes "list_all (\<lambda>n. 2 \<le> n) (queue_lengths s)"
    and "sorted_wrt (<) (m_mergePoints s)" and "0 \<notin> set (m_mergePoints s)"
  shows "\<exists>s'. advance_times N s = Inr (True, s')
           \<and> queue_lengths s' = queue_lengths s
           \<and> m_mergePoints s' = map (\<lambda>m. m - of_nat N) (filter (\<lambda>m. N < unat m) (m_mergePoints s))
           \<and> sorted_wrt (<) (m_mergePoints s')
           \<and> (N = 1 \<longrightarrow> advanceReferenceSignals s = Inr (True, s'))"
proof -
  have ready: "buffers_ready s" using assms by (simp add: buffers_ready_def)
  from advance_many [OF ready, of N] obtain s' where
    s': "advance_times N s = Inr (True, s')" "queue_lengths s' = queue_lengths s"
      "m_mergePoints s' = map (\<lambda>m. m - of_nat N) (filter (\<lambda>m. N < unat m) (m_mergePoints s))"
    by blast
  have "sorted_wrt (<) (m_mergePoints s')"
    unfolding s'(3) using after_sorted [OF assms(2), of N] by simp
  moreover have "advanceReferenceSignals s = Inr (True, s')" if "N = 1"
  proof -
    from advance_once [OF ready] obtain s1 where s1: "advanceReferenceSignals s = Inr (True, s1)"
      by blast
    with s'(1) that show ?thesis by simp
  qed
  ultimately show ?thesis using s' by blast
qed

text \<open>
  C3 (amended) at a concrete input: three samples in every queue, merge points 2 and 5,
  two advances; the merge point 3 is left.
\<close>

theorem C3_advance_preserves_buffers_witness:
  "list_all (\<lambda>n. 2 \<le> n) (queue_lengths sample_module)
   \<and> sorted_wrt (<) (m_mergePoints sample_module) \<and> 0 \<notin> set (m_mergePoints sample_module)
   \<and> (\<exists>s'. advance_times 2 sample_module = Inr (True, s')
          \<and> queue_lengths s' = queue_lengths sample_module
          \<and> m_mergePoints s' = [3])"
proof -
  have h: "list_all (\<lambda>n. 2 \<le> n) (queue_lengths sample_module)"
    "sorted_wrt (<) (m_mergePoints sample_module)" "0 \<notin> set (m_mergePoints sample_module)"
    by (simp_all add: queue_lengths_def sample_module_def)
  have m: "map (\<lambda>m. m - of_nat 2) (filter (\<lambda>m. 2 < unat m) (m_mergePoints sample_module)) = [3]"
    by (simp add: sample_module_def)
  show ?thesis
    using C3_advance_preserves_buffers [OF h, of 2] h unfolding m by blast
qed

section \<open>Requests while a request is pending\<close>

text \<open>
  C4 (the claim fails): with a request pending, the counter at 15 and the first merge
  point at 25, \<open>setPlannerInput\<close> sets the counter to 25.
\<close>

theorem C4_pending_request_overridden:
  "m_newTrajectoryRequired pending_module
   \<and> m_newTrajectoryMergeCounter pending_module = 15
   \<and> map_sum id (m_newTrajectoryMergeCounter \<circ> snd) (setPlannerInput 1 1 pending_module) = Inr 25"
  by (simp add: setPlannerInput_def pending_module_def sample_module_def Let_def)

text \<open>
  C4 (amended): when a request is pending, \<open>setPlannerInput\<close> leaves the counter unchanged
  if the merge-point queue is empty or its front is at most 20; if the front is greater
  than 20 the call succeeds and sets the counter to the front.
\<close>

theorem C4_pending_request_kept:
  assumes "m_newTrajectoryRequired s"
  shows "(m_mergePoints s = [] \<or> hd (m_mergePoints s) \<le> 20 \<longrightarrow>
            (\<forall>ok s'. setPlannerInput x y s = Inr (ok, s')
               \<longrightarrow> m_newTrajectoryMergeCounter s' = m_newTrajectoryMergeCounter s))
         \<and> (m_mergePoints s \<noteq> [] \<and> hd (m_mergePoints s) > 20 \<longrightarrow>
            (\<exists>s'. setPlannerInput x y s = Inr (True, s')
               \<and> m_newTrajectoryMergeCounter s' = hd (m_mergePoints s)))"
  using assms
  by (auto simp: setPlannerInput_def Let_def split: list.splits if_splits)

text \<open>
  C4 (amended) at a concrete input: a request pending, the counter at 15, the first merge
  point at 2; the counter stays at 15.
\<close>

theorem C4_pending_request_kept_witness:
  "m_newTrajectoryRequired pending_near_module
   \<and> hd (m_mergePoints pending_near_module) \<le> 20
   \<and> map_sum id (m_newTrajectoryMergeCounter \<circ> snd) (setPlannerInput 1 1 pending_near_module)
       = Inr 15"
  using C4_pending_request_kept [of pending_near_module 1 1]
  by (simp add: setPlannerInput_def pending_near_module_def sample_module_def Let_def)

section \<open>The walking branch of updateModule\<close>

lemma keepsI:
  assumes "\<And>s s'. f s = Running s' \<Longrightarrow> obs s' = obs s"
    and "\<And>s b s'. f s = Returned b s' \<Longrightarrow> \<not> b \<and> obs s' = obs s"
  shows "keeps obs f"
  unfolding keeps_def
proof
  fix s
  show "case f s of Running s' \<Rightarrow> obs s' = obs s
              | Returned b s' \<Rightarrow> \<not> b \<and> obs s' = obs s
              | Faulted e \<Rightarrow> True"
  proof (cases "f s")
    case (Running s')
    then show ?thesis using assms(1) by simp
  next
    case (Returned b s')
    then show ?thesis using assms(2) [of s b s'] by simp
  next
    case (Faulted e)
    then show ?thesis by simp
  qed
qed

lemma keepsD:
  assumes "keeps obs f"
  shows "f s = Running s' \<Longrightarrow> obs s' = obs s"
    and "f s = Returned b s' \<Longrightarrow> \<not> b \<and> obs s' = obs s"
proof -
  from assms have c: "case f s of Running s' \<Rightarrow> obs s' = obs s
              | Returned b s' \<Rightarrow> \<not> b \<and> obs s' = obs s
              | Faulted e \<Rightarrow> True"
    unfolding keeps_def by blast
  show "f s = Running s' \<Longrightarrow> obs s' = obs s"
    using c by simp
  show "f s = Returned b s' \<Longrightarrow> \<not> b \<and> obs s' = obs s"
    using c by simp
qed

lemma keeps_if:
  "keeps obs f \<Longrightarrow> keeps obs g \<Longrightarrow> keeps obs (\<lambda>s. if c s then f s else g s)"
  by (rule keepsI) (auto split: if_splits dest: keepsD)

lemma keeps_call: "keeps obs (call ok)"
  by (rule keepsI) (auto simp: call_def split: if_splits)

lemma keeps_front_of: "keeps obs (front_of sel)"
  by (rule keepsI) (auto simp: front_of_def split: if_splits)

lemma keeps_when: "keeps obs f \<Longrightarrow> keeps obs (when_step c f)"
  by (rule keepsI) (auto simp: when_step_def split: if_splits dest: keepsD)

lemma run_steps_Running:
  "list_all (keeps obs) fs \<Longrightarrow> run_steps fs s = Running s' \<Longrightarrow> obs s' = obs s"
proof (induction fs arbitrary: s)
  case Nil
  then show ?case by simp
next
  case (Cons f fs)
  then show ?case
    by (auto split: flow.splits dest: keepsD)
qed

lemma run_steps_Returned:
  "list_all (keeps obs) fs \<Longrightarrow> run_steps fs s = Returned b s' \<Longrightarrow> \<not> b \<and> obs s' = obs s"
proof (induction fs arbitrary: s)
  case Nil
  then show ?case by simp
next
  case (Cons f fs)
  then show ?case
    by (auto split: flow.splits dest: keepsD)
qed

lemma keeps_run_steps: "list_all (keeps obs) fs \<Longrightarrow> keeps obs (run_steps fs)"
  by (rule keepsI) (auto dest: run_steps_Running run_steps_Returned)

lemma keeps_must:
  assumes "\<And>s ok s'. g s = Inr (ok, s') \<Longrightarrow> obs s' = obs s"
  shows "keeps obs (\<lambda>s. must (g s))"
  by (rule keepsI) (auto simp: must_def split: sum.splits if_splits prod.splits dest: assms)

lemma keeps_comp: "keeps obs f \<Longrightarrow> keeps (\<lambda>s. g (obs s)) f"
  by (rule keepsI) (auto dest: keepsD)

lemma run_steps_append:
  "run_steps (fs @ gs) s =
     (case run_steps fs s of Running s' \<Rightarrow> run_steps gs s'
      | Returned b s' \<Rightarrow> Returned b s'
      | Faulted e \<Rightarrow> Faulted e)"
  by (induction fs arbitrary: s) (auto split: flow.splits)

text \<open>Steps that leave the state as it is keep every observation.\<close>

lemma keeps_gainScheduling: "keeps obs (step_gainScheduling env)"
  by (rule keepsI) (auto simp: step_gainScheduling_def call_def split: if_splits)

lemma keeps_feedback: "keeps obs (step_feedback env)"
  by (simp add: step_feedback_def keeps_call)

lemma keeps_updateFKSolver: "keeps obs (updateFKSolver env)"
  unfolding updateFKSolver_def
  by (rule keeps_run_steps) (simp add: keeps_call keeps_front_of)

lemma keeps_measures: "keeps obs (step_measures env)"
  unfolding step_measures_def
  by (rule keeps_run_steps) (simp add: keeps_call)

lemma keeps_mildds: "keeps obs step_mildds"
  by (rule keepsI) (auto simp: step_mildds_def split: list.splits if_splits)

lemma keeps_references: "keeps obs (step_references env)"
  unfolding step_references_def
  by (rule keeps_run_steps) (simp add: keeps_call keeps_front_of)

lemma keeps_leftSwing: "keeps obs (step_leftSwingAdaptation env)"
  by (rule keepsI) (auto simp: step_leftSwingAdaptation_def)

lemma keeps_DCMController: "keeps obs (step_DCMController env)"
  unfolding step_DCMController_def
  by (intro keeps_if keeps_run_steps) (simp_all add: keeps_call keeps_front_of)

lemma keeps_ZMPController: "keeps obs (step_ZMPController env)"
  unfolding step_ZMPController_def
  by (rule keeps_run_steps) (simp add: keeps_call keeps_front_of)

lemma keeps_solveQPIK: "keeps obs (solveQPIK env)"
  unfolding solveQPIK_def
  by (rule keeps_run_steps) (simp add: keeps_call keeps_front_of)

lemma keeps_IK: "keeps obs (step_IK env)"
proof -
  have c: "keeps obs (\<lambda>s. if m_useQPIK s
                     then run_steps [call (qpik_setInternalRobotState_ok env),
                                     (if m_useOSQP s then solveQPIK env else solveQPIK env)] s
                     else when_step (\<lambda>_. usingAdditionalRotationTarget env)
                            (run_steps [call (updateIntertiaToWorldFrameRotation_ok env),
                                        call (setFullModelFeedBack_ok env),
                                        front_of m_leftTrajectory, front_of m_rightTrajectory,
                                        call (computeIK_ok env)]) s)"
    unfolding if_cancel
    by (intro keeps_if keeps_when keeps_run_steps)
      (simp_all add: keeps_call keeps_front_of keeps_solveQPIK)
  show ?thesis
    unfolding step_IK_def
    by (rule keeps_run_steps) (simp add: keeps_front_of c)
qed

text \<open>The steps that change the state, and what they keep.\<close>

lemma setPlannerInput_obs:
  "setPlannerInput x y s = Inr (ok, s') \<Longrightarrow> obs_requests s' = obs_requests s"
  by (auto simp: setPlannerInput_def Let_def obs_requests_def joint_commands_def adaptator_calls_def
      split: list.splits if_splits)

lemma askNewTrajectories_obs:
  "askNewTrajectories env c s = Inr (ok, s') \<Longrightarrow> obs_requests s' = obs_requests s"
  by (auto simp: askNewTrajectories_def obs_requests_def joint_commands_def adaptator_calls_def
      split: if_splits)

lemma updateTrajectories_obs:
  "updateTrajectories env c s = Inr (ok, s') \<Longrightarrow> obs_requests s' = obs_requests s"
  by (auto simp: updateTrajectories_def Let_def obs_requests_def joint_commands_def adaptator_calls_def
      split: if_splits list.splits)

lemma advanceReferenceSignals_obs:
  "advanceReferenceSignals s = Inr (ok, s') \<Longrightarrow>
     m_robotState s' = m_robotState s \<and> events s' = events s
     \<and> m_useStepAdaptation s' = m_useStepAdaptation s \<and> indexmilad s' = indexmilad s"
  by (auto simp: advanceReferenceSignals_def split: if_splits)

lemma keeps_count: "keeps obs_requests step_count"
  by (rule keepsI)
    (auto simp: step_count_def obs_requests_def joint_commands_def adaptator_calls_def)

lemma keeps_plannerInput: "keeps obs_requests (step_plannerInput env)"
  by (rule keepsI)
    (auto simp: step_plannerInput_def must_def
      split: option.splits sum.splits prod.splits if_splits dest: setPlannerInput_obs)

lemma keeps_terminalInput: "keeps obs_requests (step_terminalInput env)"
  by (rule keepsI)
    (auto simp: step_terminalInput_def must_def
      split: list.splits sum.splits prod.splits if_splits dest: setPlannerInput_obs)

lemma keeps_ask: "keeps obs_requests (step_ask env)"
  by (rule keepsI)
    (auto simp: step_ask_def must_def
      split: list.splits sum.splits prod.splits if_splits dest: askNewTrajectories_obs)

lemma keeps_graft: "keeps obs_requests (step_graft env)"
proof (rule keepsI)
  fix s s' :: "('a, 'b) WalkingModule"
  assume "step_graft env s = Running s'"
  then obtain s1 where "updateTrajectories env (m_newTrajectoryMergeCounter s) s = Inr (True, s1)"
    and "s' = s1\<lparr>m_newTrajectoryRequired := False\<rparr>"
    by (auto simp: step_graft_def must_def split: sum.splits prod.splits if_splits flow.splits)
  then show "obs_requests s' = obs_requests s"
    using updateTrajectories_obs [of env _ s True s1]
    by (simp add: obs_requests_def joint_commands_def adaptator_calls_def)
next
  fix s s' :: "('a, 'b) WalkingModule" and b
  assume "step_graft env s = Returned b s'"
  then have "updateTrajectories env (m_newTrajectoryMergeCounter s) s = Inr (False, s')" and "\<not> b"
    by (auto simp: step_graft_def must_def split: sum.splits prod.splits if_splits flow.splits)
  then show "\<not> b \<and> obs_requests s' = obs_requests s"
    using updateTrajectories_obs [of env _ s False s'] by simp
qed

lemma keeps_countdown: "keeps obs_requests step_countdown"
  by (rule keepsI)
    (auto simp: step_countdown_def obs_requests_def joint_commands_def adaptator_calls_def)

lemma keeps_mergeScheduler: "keeps obs_requests (step_mergeScheduler env)"
  unfolding step_mergeScheduler_def
  by (intro keeps_when keeps_run_steps)
    (simp add: keeps_when keeps_ask keeps_graft keeps_countdown)

lemma keeps_before_feedback: "list_all (keeps obs_requests) (steps_before_feedback env)"
  by (simp add: steps_before_feedback_def keeps_count keeps_plannerInput keeps_terminalInput
      keeps_mergeScheduler keeps_gainScheduling)

lemma keeps_setReferences: "keeps obs_adaptation (step_setReferences env)"
  by (rule keepsI)
    (auto simp: step_setReferences_def log_event_def call_def obs_adaptation_def adaptator_calls_def
      split: if_splits)

lemma keeps_advance: "keeps obs_adaptation step_advance"
  by (rule keepsI)
    (auto simp: step_advance_def obs_adaptation_def adaptator_calls_def
      split: sum.splits prod.splits dest!: advanceReferenceSignals_obs)

lemma rightSwing_outcome:
  assumes "step_rightSwingAdaptation env s = Running s' \<or> step_rightSwingAdaptation env s = Returned b s'"
  shows "m_robotState s' = m_robotState s \<and> indexmilad s' = indexmilad s
     \<and> m_useStepAdaptation s' = m_useStepAdaptation s
     \<and> (step_rightSwingAdaptation env s = Returned b s' \<longrightarrow> \<not> b)
     \<and> (adaptator_calls s' = adaptator_calls s
        \<or> adaptator_calls s' = adaptator_calls s @ [RunStepAdaptator RightSwing]
          \<and> m_useStepAdaptation s
          \<and> 0 \<le> indexmilad s \<and> nat (indexmilad s) < length (jRightFootPhases env)
          \<and> jRightFootPhases env ! nat (indexmilad s) = 2
          \<and> 1 < jRightstepList_size env)"
  using assms
  by (auto simp: step_rightSwingAdaptation_def adaptation_body_def reads_mergePointSample_def
      when_step_def log_event_def call_def adaptator_calls_def
      split: if_splits list.splits)

lemma keeps_calls_of_requests: "keeps obs_requests f \<Longrightarrow> keeps obs_calls f"
  by (rule keepsI) (auto simp: obs_calls_def obs_requests_def dest: keepsD)

lemma keeps_before_adaptation: "list_all (keeps obs_calls) (steps_before_adaptation env)"
  using keeps_before_feedback [of env]
  by (auto simp: steps_before_adaptation_def list_all_iff keeps_feedback keeps_updateFKSolver
      keeps_measures keeps_mildds keeps_references intro: keeps_calls_of_requests)

lemma keeps_after_adaptation: "list_all (keeps obs_adaptation) (steps_after_adaptation env)"
  by (simp add: steps_after_adaptation_def keeps_leftSwing keeps_DCMController
      keeps_ZMPController keeps_IK keeps_setReferences keeps_advance)

lemma walking_tick_split:
  "walking_tick env s =
     (case run_steps (steps_before_feedback env) s of
        Running s1 \<Rightarrow>
          (case step_feedback env s1 of
             Running s2 \<Rightarrow> run_steps (steps_after_feedback env) s2
           | Returned b s2 \<Rightarrow> Returned b s2
           | Faulted e \<Rightarrow> Faulted e)
      | Returned b s1 \<Rightarrow> Returned b s1
      | Faulted e \<Rightarrow> Faulted e)"
  by (simp add: walking_tick_def run_steps_append split: flow.splits)

lemma walking_tick_around_adaptation:
  "walking_tick env s =
     (case run_steps (steps_before_adaptation env) s of
        Running s1 \<Rightarrow>
          (case step_rightSwingAdaptation env s1 of
             Running s2 \<Rightarrow> run_steps (steps_after_adaptation env) s2
           | Returned b s2 \<Rightarrow> Returned b s2
           | Faulted e \<Rightarrow> Faulted e)
      | Returned b s1 \<Rightarrow> Returned b s1
      | Faulted e \<Rightarrow> Faulted e)"
proof -
  have "steps_before_feedback env @ [step_feedback env] @ steps_after_feedback env
      = steps_before_adaptation env @ [step_rightSwingAdaptation env] @ steps_after_adaptation env"
    by (simp add: steps_before_adaptation_def steps_after_adaptation_def steps_after_feedback_def)
  then show ?thesis
    by (simp add: walking_tick_def run_steps_append split: flow.splits)
qed

lemma walking_tick_adaptation:
  assumes "walking_tick env s = Running s' \<or> walking_tick env s = Returned b s'"
  shows "adaptator_calls s' = adaptator_calls s
        \<or> adaptator_calls s' = adaptator_calls s @ [RunStepAdaptator RightSwing]
          \<and> m_useStepAdaptation s \<and> right_swing_trigger env (indexmilad s')"
proof (cases "run_steps (steps_before_adaptation env) s")
  case (Running s1)
  have o1: "obs_calls s1 = obs_calls s"
    using run_steps_Running [OF keeps_before_adaptation Running] .
  show ?thesis
  proof (cases "step_rightSwingAdaptation env s1")
    case r2: (Running s2)
    from rightSwing_outcome [of env s1 s2 b] r2
    have o2: "indexmilad s2 = indexmilad s1"
      "adaptator_calls s2 = adaptator_calls s1
        \<or> adaptator_calls s2 = adaptator_calls s1 @ [RunStepAdaptator RightSwing]
          \<and> m_useStepAdaptation s1 \<and> right_swing_trigger env (indexmilad s1)"
      by (simp_all add: right_swing_trigger_def)
    from assms Running r2
    have "run_steps (steps_after_adaptation env) s2 = Running s'
        \<or> run_steps (steps_after_adaptation env) s2 = Returned b s'"
      by (simp add: walking_tick_around_adaptation)
    then have "obs_adaptation s' = obs_adaptation s2"
      using run_steps_Running [OF keeps_after_adaptation] run_steps_Returned [OF keeps_after_adaptation]
      by blast
    with o1 o2 show ?thesis
      by (auto simp: obs_calls_def obs_adaptation_def)
  next
    case r2: (Returned b2 s2)
    with assms Running have "s' = s2"
      by (simp add: walking_tick_around_adaptation)
    with rightSwing_outcome [of env s1 s2 b2] r2 o1 show ?thesis
      by (auto simp: obs_calls_def right_swing_trigger_def)
  next
    case (Faulted e)
    with assms Running show ?thesis
      by (simp add: walking_tick_around_adaptation)
  qed
next
  case (Returned b1 s1)
  with assms have "s' = s1"
    by (simp add: walking_tick_around_adaptation)
  with run_steps_Returned [OF keeps_before_adaptation Returned] show ?thesis
    by (simp add: obs_calls_def)
next
  case (Faulted e)
  with assms show ?thesis
    by (simp add: walking_tick_around_adaptation)
qed

text \<open>The two concrete calls of \<open>updateModule\<close> used below.\<close>

lemma sample_prefix:
  "run_steps (steps_before_feedback sample_failing_env) sample_module
     = Running (sample_module\<lparr>indexmilad := 1\<rparr>)"
  by (simp add: steps_before_feedback_def step_count_def step_plannerInput_def
      step_terminalInput_def step_mergeScheduler_def step_gainScheduling_def when_step_def
      sample_failing_env_def sample_env_def sample_module_def)

lemma sample_tick:
  "updateModule sample_env sample_module =
     Returned True (sample_module\<lparr>indexmilad := 1, m_time := 1 / 100, m_firstStep := False,
        m_mergePoints := [1, 4],
        m_rightInContact := [False, False, False],
        events := [RunStepAdaptator RightSwing, SetDirectPositionReferences]\<rparr>)"
  by (simp add: updateModule_def walking_tick_def steps_before_feedback_def steps_after_feedback_def
      step_count_def step_plannerInput_def step_terminalInput_def step_mergeScheduler_def
      step_gainScheduling_def when_step_def step_feedback_def call_def updateFKSolver_def
      front_of_def step_measures_def step_mildds_def step_references_def
      step_rightSwingAdaptation_def adaptation_body_def reads_mergePointSample_def log_event_def
      step_leftSwingAdaptation_def step_DCMController_def step_ZMPController_def step_IK_def
      solveQPIK_def step_setReferences_def step_advance_def advanceReferenceSignals_def
      pop_push_def advance_mergePoints_def
      sample_env_def sample_module_def)

text \<open>
  C5 (the claim fails): a call of \<open>updateModule\<close> in the state \<open>Walking\<close> in which the
  acquisition of the feedback fails returns \<open>false\<close> and leaves the state \<open>Walking\<close>; it
  does not go to \<open>Stopped\<close>.
\<close>

theorem C5_feedback_failure_keeps_walking:
  "m_robotState sample_module = Walking
   \<and> \<not> getFeedbacks_ok sample_failing_env
   \<and> updateModule sample_failing_env sample_module
       = Returned False (sample_module\<lparr>indexmilad := 1\<rparr>)
   \<and> m_robotState (sample_module\<lparr>indexmilad := 1\<rparr>) \<noteq> Stopped"
  using sample_prefix
  by (simp add: updateModule_def walking_tick_split step_feedback_def call_def
      sample_module_def sample_failing_env_def sample_env_def)

text \<open>
  C5 (amended): in the state \<open>Walking\<close>, when the acquisition of the feedback fails,
  \<open>updateModule\<close> returns \<open>false\<close> at that point, with the state the steps before it have
  produced; whenever it returns, it returns \<open>false\<close>, no joint position reference has
  been sent during the call and the state of the machine is still \<open>Walking\<close>.
\<close>

theorem C5_feedback_failure_aborts_tick:
  assumes "m_robotState s = Walking" and "\<not> getFeedbacks_ok env"
  shows "(\<forall>s1. run_steps (steps_before_feedback env) s = Running s1
            \<longrightarrow> updateModule env s = Returned False s1)
       \<and> (\<forall>b s'. updateModule env s = Returned b s'
            \<longrightarrow> \<not> b \<and> m_robotState s' = Walking \<and> joint_commands s' = joint_commands s)
       \<and> (\<forall>s'. updateModule env s \<noteq> Running s')"
proof -
  have fb: "step_feedback env t = Returned False t" for t :: "('a, 'b) WalkingModule"
    using assms(2) by (simp add: step_feedback_def call_def)
  have um: "updateModule env s =
     (case run_steps (steps_before_feedback env) s of
        Running s1 \<Rightarrow> Returned False s1
      | Returned b s1 \<Rightarrow> Returned b s1
      | Faulted e \<Rightarrow> Faulted e)"
    using assms(1) by (simp add: updateModule_def walking_tick_split fb split: flow.splits)
  show ?thesis
  proof (cases "run_steps (steps_before_feedback env) s")
    case (Running s1)
    from run_steps_Running [OF keeps_before_feedback Running]
    have "m_robotState s1 = m_robotState s" "joint_commands s1 = joint_commands s"
      by (simp_all add: obs_requests_def)
    with Running assms(1) show ?thesis
      by (simp add: um)
  next
    case (Returned b1 s1)
    from run_steps_Returned [OF keeps_before_feedback Returned]
    have "\<not> b1" "m_robotState s1 = m_robotState s" "joint_commands s1 = joint_commands s"
      by (simp_all add: obs_requests_def)
    with Returned assms(1) show ?thesis
      by (simp add: um)
  next
    case (Faulted e)
    then show ?thesis
      by (simp add: um)
  qed
qed

text \<open>
  C5 (amended) at a concrete input: the call reaches the acquisition of the feedback and
  returns \<open>false\<close> there.
\<close>

theorem C5_feedback_failure_witness:
  "m_robotState sample_module = Walking \<and> \<not> getFeedbacks_ok sample_failing_env
   \<and> run_steps (steps_before_feedback sample_failing_env) sample_module
       = Running (sample_module\<lparr>indexmilad := 1\<rparr>)
   \<and> updateModule sample_failing_env sample_module
       = Returned False (sample_module\<lparr>indexmilad := 1\<rparr>)
   \<and> joint_commands (sample_module\<lparr>indexmilad := 1\<rparr>) = joint_commands sample_module"
  using C5_feedback_failure_aborts_tick [of sample_module sample_failing_env] sample_prefix
  by (simp add: sample_module_def sample_failing_env_def sample_env_def joint_commands_def)

text \<open>
  C8: the second step-adaptation block does nothing, in every state and for every answer
  of the collaborators; and a call of \<open>updateModule\<close> in the state \<open>Walking\<close> that returns
  has run the step adaptator either not at all or once, through the first block, with
  step adaptation enabled, the phase code of the right foot at the index of this call
  equal to 2 and more than one step planned for the right foot.
\<close>

theorem C8_adaptation_only_on_right_swing:
  assumes "m_robotState s = Walking" and "updateModule env s = Returned b s'"
  shows "step_leftSwingAdaptation env t = Running t
       \<and> (adaptator_calls s' = adaptator_calls s
          \<or> adaptator_calls s' = adaptator_calls s @ [RunStepAdaptator RightSwing]
            \<and> m_useStepAdaptation s
            \<and> 0 \<le> indexmilad s' \<and> nat (indexmilad s') < length (jRightFootPhases env)
            \<and> jRightFootPhases env ! nat (indexmilad s') = 2
            \<and> 1 < jRightstepList_size env)"
proof -
  from assms have "walking_tick env s = Running s' \<or> walking_tick env s = Returned b s'"
    by (auto simp: updateModule_def split: flow.splits)
  from walking_tick_adaptation [OF this] show ?thesis
    by (simp add: step_leftSwingAdaptation_def right_swing_trigger_def)
qed

text \<open>
  C8 at a concrete input: a call that runs through, with the right foot in phase 2 and
  two steps planned for it; the adaptator is run once, through the first block.
\<close>

theorem C8_adaptation_witness:
  "m_robotState sample_module = Walking
   \<and> updateModule sample_env sample_module =
     Returned True (sample_module\<lparr>indexmilad := 1, m_time := 1 / 100, m_firstStep := False,
        m_mergePoints := [1, 4],
        m_rightInContact := [False, False, False],
        events := [RunStepAdaptator RightSwing, SetDirectPositionReferences]\<rparr>)
   \<and> jRightFootPhases sample_env ! nat 1 = 2 \<and> 1 < jRightstepList_size sample_env"
  using C8_adaptation_only_on_right_swing [OF _ sample_tick] sample_tick
  by (simp add: sample_module_def sample_env_def)

end
